theory Spec2Isabelle
  imports Complex_Main "HOL-Library.Sublist"
begin

section \<open>JavaScript primitives used by the core\<close>

text \<open>
  Numbers of the source are IEEE doubles. Traits, emotional scalars, importance, emotional
  weight and relevance scores are modelled as \<open>real\<close>, so the rounding error of the
  floating-point operations on them is not modelled. The arithmetic of \<open>getStats\<close>,
  where the source can produce numbers that are not finite, is modelled with \<open>jsnum\<close>
  and an explicit rounding function.
  A string is a \<open>char list\<close>, each \<open>char\<close> a UTF-16 code unit below 256 (the Latin-1
  range); on such strings \<open>length\<close>, \<open>str_includes\<close> and \<open>toLowerCase\<close> are
  \<open>length\<close>, \<open>includes\<close> and \<open>toLowerCase\<close> of the source.
  Timestamps are milliseconds since the epoch (\<open>int\<close>); every call that reads the clock
  or draws a fresh uuid in the source takes the value read as an explicit argument.
\<close>

text \<open>
  \<open>String.prototype.toLowerCase\<close> on one code unit below 256: the letters A to Z and
  the Latin-1 capitals \<open>0xC0\<close> to \<open>0xDE\<close> other than the multiplication sign
  \<open>0xD7\<close> move up by \<open>0x20\<close> (bit 5, clear in all of them, is set); every other
  code unit is its own lower case.
\<close>

fun toLowerChar :: "char \<Rightarrow> char" where
  "toLowerChar (Char b0 b1 b2 b3 b4 b5 b6 b7) =
     (let n = (of_char (Char b0 b1 b2 b3 b4 b5 b6 b7) :: nat)
      in if (65 \<le> n \<and> n \<le> 90) \<or> (192 \<le> n \<and> n \<le> 222 \<and> n \<noteq> 215)
         then Char b0 b1 b2 b3 b4 True b6 b7
         else Char b0 b1 b2 b3 b4 b5 b6 b7)"

definition toLowerCase :: "string \<Rightarrow> string" where
  "toLowerCase s = map toLowerChar s"

text \<open>\<open>String.prototype.includes\<close>: the query occurs as a contiguous substring.\<close>

fun str_includes :: "string \<Rightarrow> string \<Rightarrow> bool" where
  "str_includes [] q = (q = [])"
| "str_includes (c # cs) q = (prefix q (c # cs) \<or> str_includes cs q)"

text \<open>\<open>Math.round\<close>: nearest integer, halves towards plus infinity.\<close>

definition Math_round :: "real \<Rightarrow> int" where
  "Math_round x = \<lfloor>x + 1 / 2\<rfloor>"

text \<open>
  The values of a double: a finite number, an infinity, or \<open>NaN\<close>. Negative zero is not
  told apart from zero.
\<close>

datatype jsnum = Finite real | PosInfinity | NegInfinity | NaN

text \<open>
  Addition and division of doubles. The first argument \<open>fl\<close> is the rounding of the
  source's arithmetic: \<open>fl x\<close> is the double that stands for the exact result \<open>x\<close>
  of an operation on two finite doubles, that is the nearest double, or an infinity when
  \<open>x\<close> is beyond the largest double. With \<open>fl = Finite\<close> no operation rounds. What
  holds for every \<open>fl\<close> holds for the rounding of the source. Dividing by zero is not an
  error: it gives an infinity, or \<open>NaN\<close> for zero divided by zero.
\<close>

fun js_add :: "(real \<Rightarrow> jsnum) \<Rightarrow> jsnum \<Rightarrow> jsnum \<Rightarrow> jsnum" where
  "js_add fl (Finite a) (Finite b) = fl (a + b)"
| "js_add fl (Finite a) PosInfinity = PosInfinity"
| "js_add fl (Finite a) NegInfinity = NegInfinity"
| "js_add fl PosInfinity (Finite b) = PosInfinity"
| "js_add fl PosInfinity PosInfinity = PosInfinity"
| "js_add fl PosInfinity NegInfinity = NaN"
| "js_add fl NegInfinity (Finite b) = NegInfinity"
| "js_add fl NegInfinity NegInfinity = NegInfinity"
| "js_add fl NegInfinity PosInfinity = NaN"
| "js_add fl NaN y = NaN"
| "js_add fl x NaN = NaN"

fun js_div :: "(real \<Rightarrow> jsnum) \<Rightarrow> jsnum \<Rightarrow> jsnum \<Rightarrow> jsnum" where
  "js_div fl (Finite a) (Finite b) =
     (if b = 0 then (if a = 0 then NaN else if 0 < a then PosInfinity else NegInfinity)
      else fl (a / b))"
| "js_div fl (Finite a) PosInfinity = Finite 0"
| "js_div fl (Finite a) NegInfinity = Finite 0"
| "js_div fl PosInfinity (Finite b) = (if 0 \<le> b then PosInfinity else NegInfinity)"
| "js_div fl NegInfinity (Finite b) = (if 0 \<le> b then NegInfinity else PosInfinity)"
| "js_div fl PosInfinity PosInfinity = NaN"
| "js_div fl PosInfinity NegInfinity = NaN"
| "js_div fl NegInfinity PosInfinity = NaN"
| "js_div fl NegInfinity NegInfinity = NaN"
| "js_div fl NaN y = NaN"
| "js_div fl x NaN = NaN"

text \<open>\<open>x || 0\<close>: the falsy numbers \<open>NaN\<close> and \<open>0\<close> are replaced by \<open>0\<close>.\<close>

fun js_or_zero :: "jsnum \<Rightarrow> jsnum" where
  "js_or_zero NaN = Finite 0"
| "js_or_zero (Finite x) = (if x = 0 then Finite 0 else Finite x)"
| "js_or_zero PosInfinity = PosInfinity"
| "js_or_zero NegInfinity = NegInfinity"

text \<open>\<open>Math.round\<close> on a double: the infinities and \<open>NaN\<close> are returned as they are.\<close>

fun js_round :: "jsnum \<Rightarrow> jsnum" where
  "js_round (Finite x) = Finite (of_int (Math_round x))"
| "js_round PosInfinity = PosInfinity"
| "js_round NegInfinity = NegInfinity"
| "js_round NaN = NaN"

section \<open>Types (types.ts)\<close>

datatype MoodState =
  Joyful | Content | Neutral | Melancholic | Anxious
  | Excited | Calm | Frustrated | Curious | Contemplative

fun mood_name :: "MoodState \<Rightarrow> string" where
  "mood_name Joyful = ''joyful''"
| "mood_name Content = ''content''"
| "mood_name Neutral = ''neutral''"
| "mood_name Melancholic = ''melancholic''"
| "mood_name Anxious = ''anxious''"
| "mood_name Excited = ''excited''"
| "mood_name Calm = ''calm''"
| "mood_name Frustrated = ''frustrated''"
| "mood_name Curious = ''curious''"
| "mood_name Contemplative = ''contemplative''"

record EmotionalState =
  mood :: MoodState
  energy :: real
  stress :: real
  confidence :: real
  socialBattery :: real

datatype MemoryType = Episodic | Semantic | Procedural | Emotional

record Memory =
  mem_id :: string
  mem_content :: string
  mem_type :: MemoryType
  importance :: real
  emotional_weight :: real
  mem_timestamp :: int
  tags :: "string list option"
  associations :: "string list option"

datatype ThoughtType = Reflection | Decision | Observation | Planning | Emotion

record Thought =
  th_id :: string
  th_content :: string
  th_type :: ThoughtType
  th_timestamp :: int
  triggers :: "string list option"

record BigFiveTraits =
  openness :: real
  conscientiousness :: real
  extraversion :: real
  agreeableness :: real
  neuroticism :: real

record HistoryEntry =
  speaker :: string
  message :: string
  h_timestamp :: int
  emotionalResponse :: "string option"

record ConversationContext =
  participantId :: string
  participantName :: string
  relationship :: string
  currentTopic :: "string option"
  emotionalTone :: "string option"
  history :: "HistoryEntry list"

section \<open>MoodEngine (mood-engine.ts)\<close>

record MoodEngine =
  emotionalState :: EmotionalState
  thoughts :: "Thought list"
  moodHistory :: "(MoodState \<times> int) list"

datatype StimulusType = Positive | Negative | NeutralStimulus

record Stimulus =
  stim_type :: StimulusType
  intensity :: real
  stim_context :: "string option"

text \<open>
  \<open>xs.slice(-n)\<close>: the last \<open>n\<close> elements; \<open>-0\<close> is \<open>0\<close>, so for \<open>n = 0\<close> it is
  the whole array.
\<close>

definition slice_last :: "nat \<Rightarrow> 'a list \<Rightarrow> 'a list" where
  "slice_last n xs = (if n = 0 then xs else drop (length xs - n) xs)"

definition recordMoodChange :: "int \<Rightarrow> MoodState \<Rightarrow> MoodEngine \<Rightarrow> MoodEngine" where
  "recordMoodChange now m me =
     (let h = moodHistory me @ [(m, now)]
      in me\<lparr>moodHistory := (if length h > 200 then slice_last 100 h else h)\<rparr>)"

definition addThought ::
  "int \<Rightarrow> string \<Rightarrow> string \<Rightarrow> ThoughtType \<Rightarrow> string list option \<Rightarrow> MoodEngine
     \<Rightarrow> Thought \<times> MoodEngine" where
  "addThought now uuid content ty trig me =
     (let thought = \<lparr>th_id = uuid, th_content = content, th_type = ty,
                      th_timestamp = now, triggers = trig\<rparr>;
          ts = thoughts me @ [thought]
      in (thought, me\<lparr>thoughts := (if length ts > 100 then slice_last 50 ts else ts)\<rparr>))"

definition moveToward :: "real \<Rightarrow> real \<Rightarrow> real \<Rightarrow> real" where
  "moveToward current target step =
     (if current < target then min target (current + step)
      else if current > target then max target (current - step)
      else current)"

definition calculateMoodFromState :: "MoodEngine \<Rightarrow> MoodState" where
  "calculateMoodFromState me =
     (let es = emotionalState me
      in if stress es > 70 then (if energy es > 60 then Anxious else Frustrated)
         else if energy es < 30 then (if stress es > 40 then Melancholic else Contemplative)
         else if energy es > 80 \<and> stress es < 30 then
           (if confidence es > 70 then Joyful else Excited)
         else if confidence es > 70 \<and> stress es < 40 then
           (if energy es > 60 then Content else Calm)
         else if socialBattery es > 70 \<and> confidence es > 50 \<and> confidence es < 80 then Curious
         else Neutral)"

text \<open>The template part \<open>context ? ` because of ${context}` : ''\<close>.\<close>

fun because_of :: "string option \<Rightarrow> string" where
  "because_of None = []"
| "because_of (Some s) = (if s = [] then [] else '' because of '' @ s)"

text \<open>\<open>[x, context].filter(Boolean)\<close> for a truthy first element.\<close>

fun filter_Boolean :: "string \<Rightarrow> string option \<Rightarrow> string list" where
  "filter_Boolean x None = [x]"
| "filter_Boolean x (Some s) = (if s = [] then [x] else [x, s])"

definition adjustState :: "Stimulus \<Rightarrow> EmotionalState \<Rightarrow> EmotionalState" where
  "adjustState stimulus es =
     (case stim_type stimulus of
        Positive \<Rightarrow>
          es\<lparr>energy := min 100 (energy es + intensity stimulus * (3 / 10)),
             stress := max 0 (stress es - intensity stimulus * (2 / 10)),
             confidence := min 100 (confidence es + intensity stimulus * (25 / 100))\<rparr>
      | Negative \<Rightarrow>
          es\<lparr>energy := max 0 (energy es - intensity stimulus * (2 / 10)),
             stress := min 100 (stress es + intensity stimulus * (4 / 10)),
             confidence := max 0 (confidence es - intensity stimulus * (15 / 100))\<rparr>
      | NeutralStimulus \<Rightarrow>
          es\<lparr>energy := moveToward (energy es) 70 5,
             stress := moveToward (stress es) 20 5,
             confidence := moveToward (confidence es) 60 3\<rparr>)"

definition updateMood :: "int \<Rightarrow> string \<Rightarrow> Stimulus \<Rightarrow> MoodEngine \<Rightarrow> MoodState \<times> MoodEngine" where
  "updateMood now uuid stimulus me =
     (let me1 = me\<lparr>emotionalState := adjustState stimulus (emotionalState me)\<rparr>;
          newMood = calculateMoodFromState me1
      in if newMood \<noteq> mood (emotionalState me1) then
           (let me2 = recordMoodChange now newMood
                        (me1\<lparr>emotionalState := (emotionalState me1)\<lparr>mood := newMood\<rparr>\<rparr>);
                me3 = snd (addThought now uuid
                        (''I'm feeling '' @ mood_name newMood @ '' now''
                           @ because_of (stim_context stimulus) @ ''.'')
                        Emotion
                        (Some (filter_Boolean ''mood_change'' (stim_context stimulus)))
                        me2)
            in (mood (emotionalState me3), me3))
         else (mood (emotionalState me1), me1))"

definition MoodEngine_new :: "int \<Rightarrow> MoodState \<Rightarrow> MoodEngine" where
  "MoodEngine_new now initialMood =
     recordMoodChange now initialMood
       \<lparr>emotionalState = \<lparr>mood = initialMood, energy = 70, stress = 20,
                          confidence = 60, socialBattery = 80\<rparr>,
        thoughts = [], moodHistory = []\<rparr>"

definition getRecentThoughts :: "nat \<Rightarrow> MoodEngine \<Rightarrow> Thought list" where
  "getRecentThoughts count me = slice_last count (thoughts me)"

definition getMoodHistory :: "int \<Rightarrow> real \<Rightarrow> MoodEngine \<Rightarrow> (MoodState \<times> int) list" where
  "getMoodHistory now hours me =
     filter (\<lambda>entry. real_of_int (snd entry) \<ge> real_of_int now - hours * 60 * 60 * 1000)
       (moodHistory me)"

definition adjustSocialBattery :: "real \<Rightarrow> MoodEngine \<Rightarrow> MoodEngine" where
  "adjustSocialBattery change me =
     me\<lparr>emotionalState := (emotionalState me)
          \<lparr>socialBattery := max 0 (min 100 (socialBattery (emotionalState me) + change))\<rparr>\<rparr>"

text \<open>
  The three templates of each mood. \<open>Math.floor(Math.random() * templates.length)\<close> is
  one of the indices 0, 1, 2 (\<open>Math.random\<close> returns a number in [0,1)); the draw is the
  argument \<open>Choice3\<close>, so the guard on a missing or empty template list is never taken.
\<close>

datatype Choice3 = Pick0 | Pick1 | Pick2

fun pick :: "Choice3 \<Rightarrow> 'a \<times> 'a \<times> 'a \<Rightarrow> 'a" where
  "pick Pick0 (a, b, c) = a"
| "pick Pick1 (a, b, c) = b"
| "pick Pick2 (a, b, c) = c"

fun thoughtTemplates :: "MoodState \<Rightarrow> string \<times> string \<times> string" where
  "thoughtTemplates Joyful =
     (''I'm feeling really good about things right now.'',
      ''This is turning out better than I expected.'',
      ''I have a good feeling about what's coming next.'')"
| "thoughtTemplates Content =
     (''Things seem to be going well.'',
      ''I'm satisfied with how this is progressing.'',
      ''There's a nice balance to everything right now.'')"
| "thoughtTemplates Neutral =
     (''Let me think about this carefully.'',
      ''I wonder what the best approach would be.'',
      ''There are several ways to look at this.'')"
| "thoughtTemplates Melancholic =
     (''I'm not sure this is going the way I hoped.'',
      ''Sometimes things don't work out as planned.'',
      ''I need to process what just happened.'')"
| "thoughtTemplates Anxious =
     (''I hope this goes well.'',
      ''There are so many variables to consider.'',
      ''I should prepare for different possibilities.'')"
| "thoughtTemplates Excited =
     (''This is really interesting!'',
      ''I can't wait to see what happens next.'',
      ''The possibilities here are fascinating.'')"
| "thoughtTemplates Calm =
     (''Everything feels peaceful right now.'',
      ''I can think clearly about this.'',
      ''There's no rush to decide.'')"
| "thoughtTemplates Frustrated =
     (''This isn't working the way it should.'',
      ''I need to find a different approach.'',
      ''Why is this so complicated?'')"
| "thoughtTemplates Curious =
     (''I wonder what would happen if...'',
      ''That's an interesting perspective.'',
      ''I'd like to understand this better.'')"
| "thoughtTemplates Contemplative =
     (''There's something deeper to consider here.'',
      ''I should reflect on what this means.'',
      ''The implications of this are worth thinking about.'')"

definition generateThoughtContent :: "Choice3 \<Rightarrow> MoodEngine \<Rightarrow> string \<times> ThoughtType" where
  "generateThoughtContent choice me =
     (let randomTemplate = pick choice (thoughtTemplates (mood (emotionalState me)));
          ty = (if str_includes randomTemplate ''wonder''
                   \<or> str_includes randomTemplate ''interesting'' then Observation
                else if str_includes randomTemplate ''should''
                   \<or> str_includes randomTemplate ''need to'' then Planning
                else if str_includes randomTemplate ''feeling''
                   \<or> str_includes randomTemplate ''I'm'' then Emotion
                else Reflection)
      in (randomTemplate, ty))"

definition generateInternalMonologue ::
  "int \<Rightarrow> string \<Rightarrow> Choice3 \<Rightarrow> MoodEngine \<Rightarrow> Thought option \<times> MoodEngine" where
  "generateInternalMonologue now uuid choice me =
     (if thoughts me \<noteq> [] \<and> now - th_timestamp (last (thoughts me)) < 30000 then (None, me)
      else
        (let (content, ty) = generateThoughtContent choice me;
             (thought, me1) = addThought now uuid content ty None me
         in (Some thought, me1)))"

definition simulateTimePassage_mood :: "int \<Rightarrow> real \<Rightarrow> MoodEngine \<Rightarrow> MoodEngine" where
  "simulateTimePassage_mood now minutes me =
     (let es = emotionalState me;
          me1 = me\<lparr>emotionalState :=
                   es\<lparr>energy := max 0 (energy es - minutes * (1 / 10)),
                      stress := max 0 (stress es - minutes * (5 / 100)),
                      socialBattery := min 100 (socialBattery es + minutes * (2 / 10))\<rparr>\<rparr>;
          newMood = calculateMoodFromState me1
      in if newMood \<noteq> mood (emotionalState me1) then
           recordMoodChange now newMood
             (me1\<lparr>emotionalState := (emotionalState me1)\<lparr>mood := newMood\<rparr>\<rparr>)
         else me1)"

text \<open>The documented bounds of the four scalars of an emotional state.\<close>

definition in_range :: "EmotionalState \<Rightarrow> bool" where
  "in_range es =
     (0 \<le> energy es \<and> energy es \<le> 100 \<and> 0 \<le> stress es \<and> stress es \<le> 100
      \<and> 0 \<le> confidence es \<and> confidence es \<le> 100
      \<and> 0 \<le> socialBattery es \<and> socialBattery es \<le> 100)"

subsection \<open>The priority table of the specification\<close>

text \<open>
  The six rules as the specification lists them: a guard on the four scalars and the mood
  the rule yields; the first rule whose guard holds decides, and no rule gives neutral.
\<close>

type_synonym mood_rule =
  "(real \<Rightarrow> real \<Rightarrow> real \<Rightarrow> real \<Rightarrow> bool) \<times> (real \<Rightarrow> real \<Rightarrow> real \<Rightarrow> real \<Rightarrow> MoodState)"

definition spec_mood_rules :: "mood_rule list" where
  "spec_mood_rules =
     [(\<lambda>e s c b. s > 70, \<lambda>e s c b. if e > 60 then Anxious else Frustrated),
      (\<lambda>e s c b. e < 30, \<lambda>e s c b. if s > 40 then Melancholic else Contemplative),
      (\<lambda>e s c b. e > 80 \<and> s < 30, \<lambda>e s c b. if c > 70 then Joyful else Excited),
      (\<lambda>e s c b. c > 70 \<and> s < 40, \<lambda>e s c b. if e > 60 then Content else Calm),
      (\<lambda>e s c b. b > 70 \<and> 50 < c \<and> c < 80, \<lambda>e s c b. Curious)]"

fun first_rule :: "mood_rule list \<Rightarrow> real \<Rightarrow> real \<Rightarrow> real \<Rightarrow> real \<Rightarrow> MoodState" where
  "first_rule [] e s c b = Neutral"
| "first_rule (r # rs) e s c b = (if fst r e s c b then snd r e s c b else first_rule rs e s c b)"

definition spec_mood :: "real \<Rightarrow> real \<Rightarrow> real \<Rightarrow> real \<Rightarrow> MoodState" where
  "spec_mood e s c b = first_rule spec_mood_rules e s c b"

section \<open>PersonalitySystem (personality-system.ts)\<close>

datatype MBTIType =
  INTJ | INTP | ENTJ | ENTP | INFJ | INFP | ENFJ | ENFP
  | ISTJ | ISFJ | ESTJ | ESFJ | ISTP | ISFP | ESTP | ESFP

datatype Temperament = Sanguine | Choleric | MelancholicTemperament | Phlegmatic

record PersonalityConfig =
  bigFive :: "BigFiveTraits option"
  mbti :: "MBTIType option"
  temperament :: "Temperament option"
  archetype :: "string option"

text \<open>
  The constructor fills every optional field of the configuration it keeps
  (\<open>config.bigFive || this.getDefaultBigFive()\<close> and so on), and nothing removes one
  afterwards, so the system's own configuration holds all four as present values.
\<close>

record PersonalitySystem =
  ps_bigFive :: BigFiveTraits
  ps_mbti :: MBTIType
  ps_temperament :: Temperament
  ps_archetype :: string
  adaptationRate :: real

definition getDefaultBigFive :: BigFiveTraits where
  "getDefaultBigFive =
     \<lparr>openness = 60, conscientiousness = 65, extraversion = 45,
      agreeableness = 70, neuroticism = 35\<rparr>"

text \<open>\<open>x || d\<close> on an optional value that is truthy whenever it is present.\<close>

fun or_default :: "'a option \<Rightarrow> 'a \<Rightarrow> 'a" where
  "or_default None d = d"
| "or_default (Some x) d = x"

text \<open>\<open>s || d\<close> on an optional string: the empty string is falsy.\<close>

fun str_or_default :: "string option \<Rightarrow> string \<Rightarrow> string" where
  "str_or_default None d = d"
| "str_or_default (Some s) d = (if s = [] then d else s)"

definition PersonalitySystem_new :: "PersonalityConfig \<Rightarrow> real \<Rightarrow> PersonalitySystem" where
  "PersonalitySystem_new cfg rate =
     \<lparr>ps_bigFive = or_default (bigFive cfg) getDefaultBigFive,
      ps_mbti = or_default (mbti cfg) ISFJ,
      ps_temperament = or_default (temperament cfg) Phlegmatic,
      ps_archetype = str_or_default (archetype cfg) ''The Helper'',
      adaptationRate = rate\<rparr>"

definition getConfig :: "PersonalitySystem \<Rightarrow> PersonalityConfig" where
  "getConfig ps =
     \<lparr>bigFive = Some (ps_bigFive ps), mbti = Some (ps_mbti ps),
      temperament = Some (ps_temperament ps), archetype = Some (ps_archetype ps)\<rparr>"

definition getBigFive :: "PersonalitySystem \<Rightarrow> BigFiveTraits" where
  "getBigFive ps = ps_bigFive ps"

text \<open>The keys of \<open>BigFiveTraits\<close>, with reading and writing a trait by key.\<close>

datatype TraitKey = KOpenness | KConscientiousness | KExtraversion | KAgreeableness | KNeuroticism

fun getTrait :: "TraitKey \<Rightarrow> BigFiveTraits \<Rightarrow> real" where
  "getTrait KOpenness b = openness b"
| "getTrait KConscientiousness b = conscientiousness b"
| "getTrait KExtraversion b = extraversion b"
| "getTrait KAgreeableness b = agreeableness b"
| "getTrait KNeuroticism b = neuroticism b"

fun setTrait :: "TraitKey \<Rightarrow> real \<Rightarrow> BigFiveTraits \<Rightarrow> BigFiveTraits" where
  "setTrait KOpenness v b = b\<lparr>openness := v\<rparr>"
| "setTrait KConscientiousness v b = b\<lparr>conscientiousness := v\<rparr>"
| "setTrait KExtraversion v b = b\<lparr>extraversion := v\<rparr>"
| "setTrait KAgreeableness v b = b\<lparr>agreeableness := v\<rparr>"
| "setTrait KNeuroticism v b = b\<lparr>neuroticism := v\<rparr>"

text \<open>
  \<open>updateBigFive(changes)\<close>. The argument is a \<open>Partial<BigFiveTraits>\<close>: its
  \<open>Object.entries\<close> are pairs of a trait key and a value that is a number or
  \<open>undefined\<close> (\<open>None\<close>), visited in order. The body of the \<open>forEach\<close> is
  \<open>updateEntry\<close>; the guard \<open>!this.config.bigFive\<close> is never taken, the traits being
  always present.
\<close>

definition updateEntry :: "real \<Rightarrow> TraitKey \<times> real option \<Rightarrow> BigFiveTraits \<Rightarrow> BigFiveTraits" where
  "updateEntry rate entry b =
     (case snd entry of
        None \<Rightarrow> b
      | Some v \<Rightarrow>
          (let currentValue = getTrait (fst entry) b;
               change = (v - currentValue) * (rate / 100)
           in setTrait (fst entry) (max 0 (min 100 (currentValue + change))) b))"

definition updateBigFive :: "(TraitKey \<times> real option) list \<Rightarrow> PersonalitySystem \<Rightarrow> PersonalitySystem" where
  "updateBigFive changes ps =
     ps\<lparr>ps_bigFive := fold (updateEntry (adaptationRate ps)) changes (ps_bigFive ps)\<rparr>"

datatype Verbosity = Concise | Moderate | Verbose

datatype Formality = Casual | NeutralFormality | Formal

record ResponseStyle =
  tone :: string
  verbosity :: Verbosity
  formality :: Formality
  empathy :: int
  assertiveness :: int

definition determineTone :: "MoodState \<Rightarrow> BigFiveTraits \<Rightarrow> string" where
  "determineTone m b =
     (let agreeablenessEffect = agreeableness b / 100;
          extraversionEffect = extraversion b / 100;
          neuroticismEffect = neuroticism b / 100
      in case m of
           Joyful \<Rightarrow> if extraversionEffect > 6 / 10 then ''enthusiastic'' else ''warm''
         | Content \<Rightarrow> ''pleasant''
         | Excited \<Rightarrow> ''energetic''
         | Anxious \<Rightarrow> if neuroticismEffect > 6 / 10 then ''worried'' else ''cautious''
         | Frustrated \<Rightarrow> if agreeablenessEffect > 7 / 10 then ''strained'' else ''direct''
         | Melancholic \<Rightarrow> ''thoughtful''
         | Contemplative \<Rightarrow> ''reflective''
         | Curious \<Rightarrow> ''inquisitive''
         | Calm \<Rightarrow> ''serene''
         | Neutral \<Rightarrow> if agreeablenessEffect > 6 / 10 then ''friendly'' else ''neutral'')"

definition getResponseStyle ::
  "EmotionalState \<Rightarrow> ConversationContext \<Rightarrow> PersonalitySystem \<Rightarrow> ResponseStyle" where
  "getResponseStyle es ctx ps =
     (let b = ps_bigFive ps;
          rel = relationship ctx;
          extraversionEffect = extraversion b / 100;
          agreeablenessEffect = agreeableness b / 100;
          conscientiousnessEffect = conscientiousness b / 100;
          neuroticismEffect = neuroticism b / 100;
          verbosity0 =
            (if extraversionEffect > 7 / 10 \<and> socialBattery es > 60 then Verbose
             else if extraversionEffect < 3 / 10 \<or> socialBattery es < 30 then Concise
             else Moderate);
          formality0 =
            (if conscientiousnessEffect > 7 / 10 then Formal
             else if extraversionEffect > 6 / 10 \<and> agreeablenessEffect > 6 / 10 then Casual
             else NeutralFormality);
          formality1 =
            (if rel = ''friend'' \<or> rel = ''family'' then Casual
             else if rel = ''professional'' then Formal
             else formality0);
          verbosity1 =
            (if (rel = ''friend'' \<or> rel = ''family'') \<and> verbosity0 = Concise then Moderate
             else verbosity0)
      in \<lparr>tone = determineTone (mood es) b,
          verbosity = verbosity1,
          formality = formality1,
          empathy = Math_round (agreeablenessEffect * 100 * (1 - neuroticismEffect * (3 / 10))),
          assertiveness =
            Math_round ((extraversionEffect * confidence es / 100) * 100
                          * (1 - agreeablenessEffect * (2 / 10)))\<rparr>)"

record BehavioralTendencies =
  curiosityLevel :: int
  socialSeeking :: int
  emotionalExpression :: int
  planningOrientation :: int
  changeAdaptability :: int

definition getBehavioralTendencies :: "PersonalitySystem \<Rightarrow> BehavioralTendencies" where
  "getBehavioralTendencies ps =
     (let b = ps_bigFive ps
      in \<lparr>curiosityLevel = Math_round (openness b),
          socialSeeking = Math_round (extraversion b),
          emotionalExpression = Math_round ((100 - neuroticism b + extraversion b) / 2),
          planningOrientation = Math_round (conscientiousness b),
          changeAdaptability = Math_round ((openness b + (100 - neuroticism b)) / 2)\<rparr>)"

section \<open>MemorySystem (memory-system.ts)\<close>

text \<open>
  The primary index is a JavaScript \<open>Map\<close> from id to record; its iteration order is the
  insertion order, so it is an association list: \<open>map_set\<close> replaces the value of a
  present key in place and appends an absent key, \<open>map_delete\<close> removes the key.
  None of the operations modelled here writes to a record after its creation, so holding
  the records by value in the index and in the two lists agrees with the source's sharing
  of one object (\<open>associateMemories\<close> and \<open>strengthenMemory\<close>, which do write to a
  record, are not modelled; no method of \<open>Soul\<close> calls them). Capacities are natural
  numbers.
\<close>

fun map_set :: "'k \<Rightarrow> 'v \<Rightarrow> ('k \<times> 'v) list \<Rightarrow> ('k \<times> 'v) list" where
  "map_set k v [] = [(k, v)]"
| "map_set k v (p # ps) = (if fst p = k then (k, v) # ps else p # map_set k v ps)"

definition map_delete :: "'k \<Rightarrow> ('k \<times> 'v) list \<Rightarrow> ('k \<times> 'v) list" where
  "map_delete k m = filter (\<lambda>p. fst p \<noteq> k) m"

definition map_has :: "'k \<Rightarrow> ('k \<times> 'v) list \<Rightarrow> bool" where
  "map_has k m = (k \<in> set (map fst m))"

definition map_values :: "('k \<times> 'v) list \<Rightarrow> 'v list" where
  "map_values m = map snd m"

record MemorySystem =
  memories :: "(string \<times> Memory) list"
  shortTermMemory :: "Memory list"
  longTermMemory :: "Memory list"
  maxShortTermSize :: nat
  maxLongTermSize :: nat

definition MemorySystem_new :: "nat \<Rightarrow> nat \<Rightarrow> MemorySystem" where
  "MemorySystem_new shortTermCapacity longTermCapacity =
     \<lparr>memories = [], shortTermMemory = [], longTermMemory = [],
      maxShortTermSize = shortTermCapacity, maxLongTermSize = longTermCapacity\<rparr>"

text \<open>The body of the first \<open>forEach\<close> of \<open>consolidateMemories\<close>: promote or forget.\<close>

definition promoteOrForget :: "Memory \<Rightarrow> MemorySystem \<Rightarrow> MemorySystem" where
  "promoteOrForget memory ms =
     (if importance memory \<ge> 60 then ms\<lparr>longTermMemory := memory # longTermMemory ms\<rparr>
      else ms\<lparr>memories := map_delete (mem_id memory) (memories ms)\<rparr>)"

definition forget :: "Memory \<Rightarrow> MemorySystem \<Rightarrow> MemorySystem" where
  "forget memory ms = ms\<lparr>memories := map_delete (mem_id memory) (memories ms)\<rparr>"

definition consolidateShort :: "MemorySystem \<Rightarrow> MemorySystem" where
  "consolidateShort ms =
     (if length (shortTermMemory ms) > maxShortTermSize ms then
        (let toConsolidate = drop (maxShortTermSize ms) (shortTermMemory ms)
         in fold promoteOrForget toConsolidate
              (ms\<lparr>shortTermMemory := take (maxShortTermSize ms) (shortTermMemory ms)\<rparr>))
      else ms)"

definition consolidateLong :: "MemorySystem \<Rightarrow> MemorySystem" where
  "consolidateLong ms =
     (if length (longTermMemory ms) > maxLongTermSize ms then
        (let forgotten = drop (maxLongTermSize ms) (longTermMemory ms)
         in fold forget forgotten
              (ms\<lparr>longTermMemory := take (maxLongTermSize ms) (longTermMemory ms)\<rparr>))
      else ms)"

definition consolidateMemories :: "MemorySystem \<Rightarrow> MemorySystem" where
  "consolidateMemories ms = consolidateLong (consolidateShort ms)"

text \<open>The arguments of one \<open>store\<close> call, defaults already applied by the caller.\<close>

record StoreArgs =
  arg_content :: string
  arg_type :: MemoryType
  arg_importance :: real
  arg_emotional_weight :: real
  arg_tags :: "string list"

definition makeMemory :: "int \<Rightarrow> string \<Rightarrow> StoreArgs \<Rightarrow> Memory" where
  "makeMemory now uuid a =
     \<lparr>mem_id = uuid, mem_content = arg_content a, mem_type = arg_type a,
      importance = arg_importance a, emotional_weight = arg_emotional_weight a,
      mem_timestamp = now, tags = Some (arg_tags a), associations = Some []\<rparr>"

definition store :: "int \<Rightarrow> string \<Rightarrow> StoreArgs \<Rightarrow> MemorySystem \<Rightarrow> Memory \<times> MemorySystem" where
  "store now uuid a ms =
     (let memory = makeMemory now uuid a
      in (memory,
          consolidateMemories
            (ms\<lparr>memories := map_set (mem_id memory) memory (memories ms),
                shortTermMemory := memory # shortTermMemory ms\<rparr>)))"

text \<open>A sequence of \<open>store\<close> calls, each with the clock value and the uuid it draws.\<close>

fun storeAll :: "(int \<times> string \<times> StoreArgs) list \<Rightarrow> MemorySystem \<Rightarrow> MemorySystem" where
  "storeAll [] ms = ms"
| "storeAll (c # cs) ms = storeAll cs (snd (store (fst c) (fst (snd c)) (snd (snd c)) ms))"

text \<open>The record a call of the sequence creates, and its entry in the primary index.\<close>

definition callMemory :: "int \<times> string \<times> StoreArgs \<Rightarrow> Memory" where
  "callMemory c = makeMemory (fst c) (fst (snd c)) (snd (snd c))"

definition callEntry :: "int \<times> string \<times> StoreArgs \<Rightarrow> string \<times> Memory" where
  "callEntry c = (fst (snd c), callMemory c)"

definition calculateRelevance :: "int \<Rightarrow> Memory \<Rightarrow> string \<Rightarrow> real" where
  "calculateRelevance now memory query =
     (let queryLower = toLowerCase query;
          contentLower = toLowerCase (mem_content memory);
          score0 = (if str_includes contentLower queryLower then 100 else 0);
          score1 = (case tags memory of
                      None \<Rightarrow> score0
                    | Some ts \<Rightarrow>
                        fold (\<lambda>tag score.
                                if str_includes (toLowerCase tag) queryLower then score + 50
                                else score) ts score0);
          score2 = score1 + importance memory * (1 / 2);
          daysSince = real_of_int (now - mem_timestamp memory) / (1000 * 60 * 60 * 24);
          recencyBonus = max 0 (20 - daysSince)
      in score2 + recencyBonus)"

text \<open>
  \<open>Array.prototype.sort\<close> is stable; with the comparator \<open>b.relevance - a.relevance\<close>
  it orders by descending relevance, which is an ascending stable sort on the negated key.
\<close>

definition sort_desc :: "('a \<Rightarrow> real) \<Rightarrow> 'a list \<Rightarrow> 'a list" where
  "sort_desc f xs = sort_key (\<lambda>x. - f x) xs"

text \<open>
  \<open>calculateRelevance\<close> reads \<open>Date.now()\<close> itself, so \<open>recall\<close> reads the clock
  once for every candidate it scores, in the order of the candidates (the callback of
  \<open>map\<close> runs in index order): \<open>clock i\<close> is the value read while candidate number
  \<open>i\<close> (from 0) is scored. The limit is a natural number.
\<close>

definition recall ::
  "(nat \<Rightarrow> int) \<Rightarrow> string \<Rightarrow> nat \<Rightarrow> real \<Rightarrow> MemorySystem \<Rightarrow> Memory list" where
  "recall clock query limit minImportance ms =
     map fst
       (take limit
          (sort_desc snd
             (filter (\<lambda>item. snd item > 0)
                (map (\<lambda>(i, memory). (memory, calculateRelevance (clock i) memory query))
                   (enumerate 0
                      (filter (\<lambda>memory. importance memory \<ge> minImportance)
                         (map_values (memories ms))))))))"

definition getRecentMemories :: "nat \<Rightarrow> MemorySystem \<Rightarrow> Memory list" where
  "getRecentMemories count ms =
     take count (sort_desc (\<lambda>m. real_of_int (mem_timestamp m)) (map_values (memories ms)))"

record MemoryStats =
  totalMemories :: nat
  shortTermCount :: nat
  longTermCount :: nat
  averageImportance :: jsnum
  memoryTypes :: "(MemoryType \<times> nat) list"

text \<open>\<open>typeCount[t] = (typeCount[t] || 0) + 1\<close> on a record keyed by type.\<close>

fun countType :: "MemoryType \<Rightarrow> (MemoryType \<times> nat) list \<Rightarrow> (MemoryType \<times> nat) list" where
  "countType t [] = [(t, 1)]"
| "countType t (p # ps) = (if fst p = t then (t, snd p + 1) # ps else p # countType t ps)"

text \<open>
  The quotient \<open>allMemories.reduce((sum, m) => sum + m.importance, 0) / allMemories.length\<close>
  of \<open>getStats\<close>, before \<open>|| 0\<close> is applied to it.
\<close>

definition avgImportanceRaw :: "(real \<Rightarrow> jsnum) \<Rightarrow> Memory list \<Rightarrow> jsnum" where
  "avgImportanceRaw fl allMemories =
     js_div fl (fold (\<lambda>m sum. js_add fl sum (Finite (importance m))) allMemories (Finite 0))
               (Finite (real (length allMemories)))"

definition getStats :: "(real \<Rightarrow> jsnum) \<Rightarrow> MemorySystem \<Rightarrow> MemoryStats" where
  "getStats fl ms =
     (let allMemories = map_values (memories ms);
          avgImportance = js_or_zero (avgImportanceRaw fl allMemories);
          typeCount = fold (\<lambda>memory. countType (mem_type memory)) allMemories []
      in \<lparr>totalMemories = length allMemories,
          shortTermCount = length (shortTermMemory ms),
          longTermCount = length (longTermMemory ms),
          averageImportance = js_round avgImportance,
          memoryTypes = typeCount\<rparr>)"

definition export_memories :: "MemorySystem \<Rightarrow> Memory list" where
  "export_memories ms = map_values (memories ms)"

definition importOne :: "Memory \<Rightarrow> MemorySystem \<Rightarrow> MemorySystem" where
  "importOne memory ms =
     (let ms1 = ms\<lparr>memories := map_set (mem_id memory) memory (memories ms)\<rparr>
      in if importance memory \<ge> 60 then ms1\<lparr>longTermMemory := longTermMemory ms1 @ [memory]\<rparr>
         else ms1\<lparr>shortTermMemory := shortTermMemory ms1 @ [memory]\<rparr>)"

definition import_memories :: "Memory list \<Rightarrow> MemorySystem \<Rightarrow> MemorySystem" where
  "import_memories mems ms = consolidateMemories (fold importOne mems ms)"

section \<open>Soul (soul.ts)\<close>

record Identity =
  name :: string
  role :: string
  age :: "real option"
  background :: "string option"
  goals :: "string list option"
  beliefs :: "string list option"
  identity_values :: "string list option"
  relationships :: "(string \<times> string) list option"

text \<open>
  \<open>Partial<Identity>\<close>: a key is absent (\<open>None\<close>) or present with its value; the
  spread \<open>{...identity, ...partial}\<close> overrides exactly the present keys.
\<close>

record IdentityPartial =
  p_name :: "string option"
  p_role :: "string option"
  p_age :: "real option option"
  p_background :: "string option option"
  p_goals :: "string list option option"
  p_beliefs :: "string list option option"
  p_values :: "string list option option"
  p_relationships :: "(string \<times> string) list option option"

definition spreadIdentity :: "Identity \<Rightarrow> IdentityPartial \<Rightarrow> Identity" where
  "spreadIdentity i p =
     \<lparr>name = or_default (p_name p) (name i),
      role = or_default (p_role p) (role i),
      age = or_default (p_age p) (age i),
      background = or_default (p_background p) (background i),
      goals = or_default (p_goals p) (goals i),
      beliefs = or_default (p_beliefs p) (beliefs i),
      identity_values = or_default (p_values p) (identity_values i),
      relationships = or_default (p_relationships p) (relationships i)\<rparr>"

record SoulConfig =
  cfg_identity :: "Identity option"
  cfg_personality :: "PersonalityConfig option"
  cfg_initialMood :: "MoodState option"
  cfg_memoryCapacity :: "nat option"
  cfg_thoughtFrequency :: "real option"
  cfg_empathyLevel :: "real option"
  cfg_learningRate :: "real option"

record Soul =
  soul_id :: string
  identity :: Identity
  memorySystem :: MemorySystem
  moodEngine :: MoodEngine
  personalitySystem :: PersonalitySystem
  conversationContexts :: "(string \<times> ConversationContext) list"
  empathyLevel :: real
  learningRate :: real
  thoughtFrequency :: real
  lastThoughtTime :: int

text \<open>\<open>x || d\<close> on an optional number: \<open>undefined\<close> and \<open>0\<close> are falsy.\<close>

fun num_or_default :: "'a::zero option \<Rightarrow> 'a \<Rightarrow> 'a" where
  "num_or_default None d = d"
| "num_or_default (Some x) d = (if x = 0 then d else x)"

text \<open>\<open>config?.field\<close>: the field of an absent configuration is \<open>undefined\<close>.\<close>

fun opt_field :: "('c \<Rightarrow> 'a option) \<Rightarrow> 'c option \<Rightarrow> 'a option" where
  "opt_field f None = None"
| "opt_field f (Some c) = f c"

definition identityMemory :: "Identity \<Rightarrow> StoreArgs" where
  "identityMemory i =
     \<lparr>arg_content = ''I am '' @ name i @ '', a '' @ role i @ ''.'',
      arg_type = Semantic, arg_importance = 100, arg_emotional_weight = 0,
      arg_tags = [''identity'', ''self'']\<rparr>"

definition emptyPersonalityConfig :: PersonalityConfig where
  "emptyPersonalityConfig = \<lparr>bigFive = None, mbti = None, temperament = None, archetype = None\<rparr>"

definition defaultIdentity :: Identity where
  "defaultIdentity =
     \<lparr>name = ''Soul'', role = ''Companion'', age = None, background = None, goals = None,
      beliefs = None, identity_values = None, relationships = None\<rparr>"

text \<open>
  The constructor draws two uuids (the soul's id, the identity memory's id) and reads the
  clock for the first mood-history entry and the identity memory.
\<close>

definition Soul_new :: "int \<Rightarrow> string \<Rightarrow> string \<Rightarrow> SoulConfig option \<Rightarrow> Soul" where
  "Soul_new now uuid memUuid cfg =
     (let ident = or_default (opt_field cfg_identity cfg) defaultIdentity;
          ms = MemorySystem_new 50 (num_or_default (opt_field cfg_memoryCapacity cfg) 1000);
          rate = num_or_default (opt_field cfg_learningRate cfg) 5
      in \<lparr>soul_id = uuid,
          identity = ident,
          memorySystem = snd (store now memUuid (identityMemory ident) ms),
          moodEngine = MoodEngine_new now (or_default (opt_field cfg_initialMood cfg) Neutral),
          personalitySystem =
            PersonalitySystem_new
              (or_default (opt_field cfg_personality cfg) emptyPersonalityConfig) rate,
          conversationContexts = [],
          empathyLevel = num_or_default (opt_field cfg_empathyLevel cfg) 70,
          learningRate = rate,
          thoughtFrequency = num_or_default (opt_field cfg_thoughtFrequency cfg) 30,
          lastThoughtTime = 0\<rparr>)"

definition withIdentity :: "int \<Rightarrow> string \<Rightarrow> IdentityPartial \<Rightarrow> Soul \<Rightarrow> Soul" where
  "withIdentity now uuid p s =
     (let ident = spreadIdentity (identity s) p
      in s\<lparr>identity := ident,
           memorySystem := snd (store now uuid (identityMemory ident) (memorySystem s))\<rparr>)"

datatype MemoryKind = ShortTerm | LongTerm | Persistent

definition withMemory :: "MemoryKind \<Rightarrow> Soul \<Rightarrow> Soul" where
  "withMemory k s = s"

definition withMood :: "int \<Rightarrow> string \<Rightarrow> MoodState \<Rightarrow> Soul \<Rightarrow> Soul" where
  "withMood now uuid m s =
     s\<lparr>moodEngine :=
         snd (updateMood now uuid
                \<lparr>stim_type = NeutralStimulus, intensity = 0,
                 stim_context = Some ''initial mood setting''\<rparr>
                (moodEngine s))\<rparr>"

definition withPersonality :: "PersonalityConfig \<Rightarrow> Soul \<Rightarrow> Soul" where
  "withPersonality personality s =
     s\<lparr>personalitySystem := PersonalitySystem_new personality (learningRate s)\<rparr>"

definition withEmpathy :: "real \<Rightarrow> Soul \<Rightarrow> Soul" where
  "withEmpathy level s = s\<lparr>empathyLevel := max 0 (min 100 level)\<rparr>"

definition getOrCreateContext :: "string \<Rightarrow> string \<Rightarrow> Soul \<Rightarrow> ConversationContext \<times> Soul" where
  "getOrCreateContext pid pname s =
     (case map_of (conversationContexts s) pid of
        None \<Rightarrow>
          (let c = \<lparr>participantId = pid, participantName = pname,
                    relationship = ''acquaintance'', currentTopic = None,
                    emotionalTone = None, history = []\<rparr>
           in (c, s\<lparr>conversationContexts := map_set pid c (conversationContexts s)\<rparr>))
      | Some c \<Rightarrow> (c, s))"

subsection \<open>analyzeEmotionalImpact\<close>

record EmotionalImpact =
  ei_type :: StimulusType
  ei_intensity :: real
  ei_importance :: real
  emotionalWeight :: real

definition positiveWords :: "string list" where
  "positiveWords =
     [''happy'', ''good'', ''great'', ''wonderful'', ''amazing'', ''love'', ''like'', ''fantastic'']"

definition negativeWords :: "string list" where
  "negativeWords =
     [''sad'', ''bad'', ''terrible'', ''awful'', ''hate'', ''dislike'', ''horrible'', ''angry'']"

text \<open>
  One lexicon loop: the score is incremented once for each word the input includes. The
  third loop of the source, over the question words, computes a score that is never read
  and is left out.
\<close>

definition wordScore :: "string list \<Rightarrow> string \<Rightarrow> nat" where
  "wordScore ws lowerInput =
     fold (\<lambda>word score. if str_includes lowerInput word then score + 1 else score) ws 0"

definition analyzeEmotionalImpact :: "string \<Rightarrow> EmotionalImpact" where
  "analyzeEmotionalImpact input =
     (let lowerInput = toLowerCase input;
          positiveScore = wordScore positiveWords lowerInput;
          negativeScore = wordScore negativeWords lowerInput;
          ty = (if positiveScore > negativeScore then Positive
                else if negativeScore > positiveScore then Negative
                else NeutralStimulus);
          intens = (if positiveScore > negativeScore then min 80 (30 + real positiveScore * 15)
                    else if negativeScore > positiveScore then min 80 (30 + real negativeScore * 15)
                    else 20);
          imp = 30 + min 50 (real (length input) / 2);
          weight = (case ty of Positive \<Rightarrow> intens | Negative \<Rightarrow> - intens | NeutralStimulus \<Rightarrow> 0)
      in \<lparr>ei_type = ty, ei_intensity = intens, ei_importance = imp, emotionalWeight = weight\<rparr>)"

text \<open>
  The intensity rule in the words of the specification: \<open>min(80, 30 + 15 * matchCount)\<close>
  if there is any lexicon match, else 20.
\<close>

definition spec_intensity :: "nat \<Rightarrow> real" where
  "spec_intensity matchCount =
     (if matchCount > 0 then min 80 (30 + 15 * real matchCount) else 20)"

subsection \<open>reflect\<close>

fun join :: "string \<Rightarrow> string list \<Rightarrow> string" where
  "join sep [] = []"
| "join sep [x] = x"
| "join sep (x # y # ys) = x @ sep @ join sep (y # ys)"

definition generateInsights :: "Memory list \<Rightarrow> Thought list \<Rightarrow> string list" where
  "generateInsights mems ths =
     (let emotionalMemories = filter (\<lambda>m. \<bar>emotional_weight m\<bar> > 50) mems;
          insights1 = (if length emotionalMemories > 3
                       then [''I've been having many emotionally significant experiences lately'']
                       else []);
          reflectiveThoughts = filter (\<lambda>t. th_type t = Reflection) ths;
          insights2 = (if length reflectiveThoughts > 2
                       then insights1 @ [''I've been doing a lot of reflecting recently'']
                       else insights1)
      in if length insights2 = 0
         then [''I'm continuing to learn and grow from my experiences'']
         else insights2)"

text \<open>\<open>counts[k] = (counts[k] || 0) + 1\<close> on a record whose keys keep insertion order.\<close>

fun countKey :: "'k \<Rightarrow> ('k \<times> nat) list \<Rightarrow> ('k \<times> nat) list" where
  "countKey k [] = [(k, 1)]"
| "countKey k (p # ps) = (if fst p = k then (k, snd p + 1) # ps else p # countKey k ps)"

text \<open>
  \<open>analyzeMoodTrends\<close>. Reading \<open>[0][0]\<close> of an empty array of entries would throw a
  \<open>TypeError\<close>; that is the result \<open>None\<close>.
\<close>

definition analyzeMoodTrends :: "(MoodState \<times> int) list \<Rightarrow> string option" where
  "analyzeMoodTrends moodHist =
     (if length moodHist < 2 then Some ''Not enough mood data to analyze trends''
      else
        (let recentMoods = map fst (slice_last 5 moodHist);
             moodCounts = fold countKey recentMoods []
         in case sort_desc (\<lambda>e. real (snd e)) moodCounts of
              [] \<Rightarrow> None
            | e # _ \<Rightarrow> Some (''Recently, I've been predominantly '' @ mood_name (fst e))))"

definition adaptations :: "Memory list \<Rightarrow> (TraitKey \<times> real option) list" where
  "adaptations mems =
     (let positiveMemories = filter (\<lambda>m. emotional_weight m > 30) mems;
          negativeMemories = filter (\<lambda>m. emotional_weight m < - 30) mems
      in if length positiveMemories > length negativeMemories
         then [(KExtraversion, Some 2), (KNeuroticism, Some (- 1))]
         else if length negativeMemories > length positiveMemories
         then [(KNeuroticism, Some 1)]
         else [])"

definition adaptPersonality :: "Memory list \<Rightarrow> Soul \<Rightarrow> (TraitKey \<times> real option) list \<times> Soul" where
  "adaptPersonality mems s =
     (adaptations mems,
      s\<lparr>personalitySystem := updateBigFive (adaptations mems) (personalitySystem s)\<rparr>)"

record Reflection_result =
  insights :: "string list"
  personalityChanges :: "(TraitKey \<times> real option) list"
  moodTrends :: string

definition reflect :: "int \<Rightarrow> string \<Rightarrow> Soul \<Rightarrow> (Reflection_result \<times> Soul) option" where
  "reflect now uuid s =
     (let recentMemories = getRecentMemories 10 (memorySystem s);
          recentThoughts = getRecentThoughts 5 (moodEngine s);
          moodHist = getMoodHistory now 24 (moodEngine s);
          ins = generateInsights recentMemories recentThoughts
      in case analyzeMoodTrends moodHist of
           None \<Rightarrow> None
         | Some trends \<Rightarrow>
             (let (changes, s1) = adaptPersonality recentMemories s;
                  s2 = s1\<lparr>memorySystem :=
                         snd (store now uuid
                               \<lparr>arg_content =
                                  ''I reflected on recent experiences and gained insights: ''
                                    @ join '', '' ins,
                                arg_type = Semantic, arg_importance = 60,
                                arg_emotional_weight = 10,
                                arg_tags = [''reflection'', ''self-awareness'', ''growth'']\<rparr>
                               (memorySystem s1))\<rparr>
              in Some (\<lparr>insights = ins, personalityChanges = changes, moodTrends = trends\<rparr>, s2)))"

subsection \<open>respond\<close>

text \<open>
  What one \<open>respond\<close> call takes from its environment: the clock value \<open>env_now\<close>
  that its own reads return, the clock values \<open>env_recallClock\<close> read while \<open>recall\<close>
  scores its candidates, the uuids of the records it may create, and the random template
  choice.
\<close>

record RespondEnv =
  env_now :: int
  env_recallClock :: "nat \<Rightarrow> int"
  uuid_moodThought :: string
  uuid_inputMemory :: string
  uuid_spontaneous :: string
  uuid_question :: string
  uuid_responseMemory :: string
  env_choice :: Choice3

definition generateThoughts :: "RespondEnv \<Rightarrow> string \<Rightarrow> ConversationContext \<Rightarrow> Soul \<Rightarrow> Thought list \<times> Soul" where
  "generateThoughts env input ctx s =
     (let now = env_now env;
          (thoughts1, s1) =
            (if real_of_int (now - lastThoughtTime s) > thoughtFrequency s * 1000 then
               (case generateInternalMonologue now (uuid_spontaneous env) (env_choice env)
                       (moodEngine s) of
                  (None, me) \<Rightarrow> ([], s\<lparr>moodEngine := me\<rparr>)
                | (Some t, me) \<Rightarrow> ([t], s\<lparr>moodEngine := me, lastThoughtTime := now\<rparr>))
             else ([], s))
      in if str_includes input ''?'' then
           (let (t, me) = addThought now (uuid_question env)
                            ''That's an interesting question to consider.'' Observation
                            (Some [''question'', ''curiosity'']) (moodEngine s1)
            in (thoughts1 @ [t], s1\<lparr>moodEngine := me\<rparr>))
         else (thoughts1, s1))"

definition generateResponse ::
  "string \<Rightarrow> ConversationContext \<Rightarrow> Memory list \<Rightarrow> ResponseStyle \<Rightarrow> EmotionalState \<Rightarrow> Soul \<Rightarrow> string" where
  "generateResponse input ctx mems style es s =
     (let personality = getBehavioralTendencies (personalitySystem s);
          m = mood es;
          template0 =
            (if str_includes input ''?'' then
               (if curiosityLevel personality > 70
                then ''That's a fascinating question. Let me think about it...''
                else ''I'll consider that question.'')
             else if m = Joyful then ''That sounds wonderful!''
             else if m = Contemplative then ''That gives me something to think about.''
             else if m = Curious then ''That's really interesting. Tell me more.''
             else ''I understand what you're saying.'');
          template1 =
            (case mems of
               [] \<Rightarrow> template0
             | memoryContext # _ \<Rightarrow>
                 if str_includes (mem_content memoryContext) (participantName ctx)
                 then template0 @ '' This reminds me of our previous conversations.''
                 else template0);
          b = getBigFive (personalitySystem s);
          template2 =
            (if agreeableness b > 70
             then ''I really appreciate you sharing that. '' @ template1 else template1)
      in if empathy style > 80
         then ''I can sense this is important to you. '' @ template2 else template2)"

record RespondResult =
  response :: string
  res_mood :: MoodState
  res_thoughts :: "Thought list"
  res_memories :: "Memory list"

definition stimulusName :: "StimulusType \<Rightarrow> string" where
  "stimulusName t =
     (case t of Positive \<Rightarrow> ''positive'' | Negative \<Rightarrow> ''negative''
      | NeutralStimulus \<Rightarrow> ''neutral'')"

definition respond :: "RespondEnv \<Rightarrow> string \<Rightarrow> string \<Rightarrow> string \<Rightarrow> Soul \<Rightarrow> RespondResult \<times> Soul" where
  "respond env input pid pname s =
     (let now = env_now env;
          (ctx, s1) = getOrCreateContext pid pname s;
          emotionalImpact = analyzeEmotionalImpact input;
          s2 = s1\<lparr>moodEngine :=
                  snd (updateMood now (uuid_moodThought env)
                         \<lparr>stim_type = ei_type emotionalImpact,
                          intensity = ei_intensity emotionalImpact,
                          stim_context = Some (''conversation with '' @ pname)\<rparr>
                         (moodEngine s1))\<rparr>;
          (conversationMemory, ms3) =
            store now (uuid_inputMemory env)
              \<lparr>arg_content = pname @ '' said: '' @ [CHR 0x22] @ input @ [CHR 0x22],
               arg_type = Episodic,
               arg_importance = ei_importance emotionalImpact,
               arg_emotional_weight = emotionalWeight emotionalImpact,
               arg_tags = [''conversation'', toLowerCase pname, ''input'']\<rparr>
              (memorySystem s2);
          s3 = s2\<lparr>memorySystem := ms3\<rparr>;
          relevantMemories = recall (env_recallClock env) input 5 30 (memorySystem s3);
          (currentThoughts, s4) = generateThoughts env input ctx s3;
          es = emotionalState (moodEngine s4);
          responseStyle = getResponseStyle es ctx (personalitySystem s4);
          resp = generateResponse input ctx relevantMemories responseStyle es s4;
          s5 = s4\<lparr>memorySystem :=
                  snd (store now (uuid_responseMemory env)
                         \<lparr>arg_content = ''I responded: '' @ [CHR 0x22] @ resp @ [CHR 0x22],
                          arg_type = Episodic,
                          arg_importance = 40,
                          arg_emotional_weight = emotionalWeight emotionalImpact * (1 / 2),
                          arg_tags = [''conversation'', toLowerCase pname, ''response'']\<rparr>
                         (memorySystem s4))\<rparr>;
          hist = history ctx
                   @ [\<lparr>speaker = pname, message = input, h_timestamp = now,
                        emotionalResponse = Some (stimulusName (ei_type emotionalImpact))\<rparr>,
                      \<lparr>speaker = name (identity s5), message = resp, h_timestamp = now,
                        emotionalResponse = None\<rparr>];
          ctx' = ctx\<lparr>history := (if length hist > 20 then slice_last 10 hist else hist)\<rparr>;
          s6 = s5\<lparr>conversationContexts := map_set pid ctx' (conversationContexts s5)\<rparr>
      in (\<lparr>response = resp, res_mood = mood (emotionalState (moodEngine s6)),
           res_thoughts = currentThoughts, res_memories = [conversationMemory]\<rparr>, s6))"

text \<open>
  \<open>Soul.simulateTimePassage\<close>: \<open>rnd\<close> is the value of \<open>Math.random()\<close> that decides
  whether a spontaneous thought is attempted.
\<close>

definition simulateTimePassage ::
  "int \<Rightarrow> string \<Rightarrow> real \<Rightarrow> Choice3 \<Rightarrow> real \<Rightarrow> Soul \<Rightarrow> Soul" where
  "simulateTimePassage now uuid rnd choice minutes s =
     (let me = simulateTimePassage_mood now minutes (moodEngine s)
      in if rnd < 3 / 10
         then s\<lparr>moodEngine := snd (generateInternalMonologue now uuid choice me)\<rparr>
         else s\<lparr>moodEngine := me\<rparr>)"

subsection \<open>export and import\<close>

record SoulExport =
  ex_id :: string
  ex_identity :: Identity
  ex_personality :: PersonalityConfig
  ex_memories :: "Memory list"
  ex_conversationContexts :: "ConversationContext list"
  ex_empathyLevel :: real
  ex_learningRate :: real

definition export :: "Soul \<Rightarrow> SoulExport" where
  "export s =
     \<lparr>ex_id = soul_id s,
      ex_identity = identity s,
      ex_personality = getConfig (personalitySystem s),
      ex_memories = export_memories (memorySystem s),
      ex_conversationContexts = map_values (conversationContexts s),
      ex_empathyLevel = empathyLevel s,
      ex_learningRate = learningRate s\<rparr>"

definition import :: "SoulExport \<Rightarrow> Soul \<Rightarrow> Soul" where
  "import d s =
     s\<lparr>soul_id := ex_id d,
       identity := ex_identity d,
       empathyLevel := ex_empathyLevel d,
       learningRate := ex_learningRate d,
       memorySystem := import_memories (ex_memories d) (memorySystem s),
       conversationContexts :=
         fold (\<lambda>c. map_set (participantId c) c) (ex_conversationContexts d)
           (conversationContexts s),
       personalitySystem := PersonalitySystem_new (ex_personality d) (ex_learningRate d)\<rparr>"

subsection \<open>The states a Soul can reach\<close>

text \<open>
  The states reachable through the public interface of \<open>Soul\<close>: the constructor, the
  fluent setters, \<open>respond\<close>, \<open>reflect\<close>, \<open>simulateTimePassage\<close> and \<open>import\<close> (of any
  snapshot, since a snapshot comes from outside).
\<close>

inductive reachable :: "Soul \<Rightarrow> bool" where
  reach_new: "reachable (Soul_new now uuid memUuid cfg)"
| reach_withIdentity: "reachable s \<Longrightarrow> reachable (withIdentity now uuid p s)"
| reach_withMemory: "reachable s \<Longrightarrow> reachable (withMemory k s)"
| reach_withMood: "reachable s \<Longrightarrow> reachable (withMood now uuid m s)"
| reach_withPersonality: "reachable s \<Longrightarrow> reachable (withPersonality personality s)"
| reach_withEmpathy: "reachable s \<Longrightarrow> reachable (withEmpathy level s)"
| reach_respond: "reachable s \<Longrightarrow> reachable (snd (respond env input pid pname s))"
| reach_reflect: "reachable s \<Longrightarrow> reflect now uuid s = Some (r, s') \<Longrightarrow> reachable s'"
| reach_simulateTimePassage:
    "reachable s \<Longrightarrow> reachable (simulateTimePassage now uuid rnd choice minutes s)"
| reach_import: "reachable s \<Longrightarrow> reachable (import d s)"

subsection \<open>Invariants and concrete Souls\<close>

text \<open>
  An index keyed by a field of its values: the keys are distinct and every value is stored
  under its own key. The primary index of the memory system is keyed by \<open>mem_id\<close>, the
  conversation contexts by \<open>participantId\<close>.
\<close>

definition keyed_by :: "('v \<Rightarrow> 'k) \<Rightarrow> ('k \<times> 'v) list \<Rightarrow> bool" where
  "keyed_by f m = (distinct (map fst m) \<and> list_all (\<lambda>p. f (snd p) = fst p) m)"

definition soul_inv :: "Soul \<Rightarrow> bool" where
  "soul_inv s =
     (keyed_by participantId (conversationContexts s)
      \<and> keyed_by mem_id (memories (memorySystem s)))"

text \<open>
  Both lists of the memory system within their capacities, as every consolidation leaves
  them.
\<close>

definition within_capacity :: "MemorySystem \<Rightarrow> bool" where
  "within_capacity ms =
     (length (shortTermMemory ms) \<le> maxShortTermSize ms
      \<and> length (longTermMemory ms) \<le> maxLongTermSize ms)"

text \<open>The environment of a first \<open>respond\<close> call at time 0.\<close>

definition firstEnv :: RespondEnv where
  "firstEnv =
     \<lparr>env_now = 0, env_recallClock = (\<lambda>i. 0), uuid_moodThought = ''t1'',
      uuid_inputMemory = ''m1'',
      uuid_spontaneous = ''t2'', uuid_question = ''t3'', uuid_responseMemory = ''m2'',
      env_choice = Pick0\<rparr>"

text \<open>\<open>new Soul()\<close> followed by one \<open>respond\<close> to a positive and to a negative input.\<close>

definition lovedSoul :: Soul where
  "lovedSoul =
     snd (respond firstEnv ''I love this'' ''user'' ''User'' (Soul_new 0 ''soul'' ''m0'' None))"

definition hatedSoul :: Soul where
  "hatedSoul =
     snd (respond firstEnv ''I hate this'' ''user'' ''User'' (Soul_new 0 ''soul'' ''m0'' None))"

text \<open>
  \<open>new Soul({identity, memoryCapacity: 1}).withIdentity({})\<close>: a Soul whose long-term
  capacity is 1 and which has stored its identity twice.
\<close>

definition tinyConfig :: SoulConfig where
  "tinyConfig =
     \<lparr>cfg_identity = Some defaultIdentity, cfg_personality = None, cfg_initialMood = None,
      cfg_memoryCapacity = Some 1, cfg_thoughtFrequency = None, cfg_empathyLevel = None,
      cfg_learningRate = None\<rparr>"

definition noIdentityChange :: IdentityPartial where
  "noIdentityChange =
     \<lparr>p_name = None, p_role = None, p_age = None, p_background = None, p_goals = None,
      p_beliefs = None, p_values = None, p_relationships = None\<rparr>"

definition tinySoul :: Soul where
  "tinySoul = withIdentity 1 ''m1'' noIdentityChange (Soul_new 0 ''soul'' ''m0'' (Some tinyConfig))"

subsection \<open>Concrete stores\<close>

text \<open>
  The scenario of 51 \<open>store\<close> calls into a store of short-term capacity 50: the first
  call stores a record of importance \<open>firstImp\<close>, the fifty later ones records of
  importance \<open>laterImp\<close>; call \<open>i\<close> draws the uuid of \<open>i + 1\<close> letters m.
\<close>

definition scenarioCall :: "nat \<Rightarrow> real \<Rightarrow> int \<times> string \<times> StoreArgs" where
  "scenarioCall i imp =
     (int i, replicate (Suc i) (CHR ''m''),
      \<lparr>arg_content = ''record'', arg_type = Episodic, arg_importance = imp,
       arg_emotional_weight = 0, arg_tags = []\<rparr>)"

definition scenarioCalls :: "real \<Rightarrow> real \<Rightarrow> (int \<times> string \<times> StoreArgs) list" where
  "scenarioCalls firstImp laterImp =
     scenarioCall 0 firstImp # map (\<lambda>i. scenarioCall i laterImp) [1..<51]"

text \<open>A \<open>store\<close> call whose importance and emotional weight lie outside their ranges.\<close>

definition outOfRangeArgs :: StoreArgs where
  "outOfRangeArgs =
     \<lparr>arg_content = ''note'', arg_type = Episodic, arg_importance = 150,
      arg_emotional_weight = - 250, arg_tags = []\<rparr>"

text \<open>Two small stores used to exercise the ranking of \<open>recall\<close>.\<close>

definition helloArgs :: StoreArgs where
  "helloArgs =
     \<lparr>arg_content = ''Hello there'', arg_type = Episodic, arg_importance = 50,
      arg_emotional_weight = 0, arg_tags = []\<rparr>"


definition byeArgs :: StoreArgs where
  "byeArgs =
     \<lparr>arg_content = ''bye'', arg_type = Episodic, arg_importance = 50,
      arg_emotional_weight = 0, arg_tags = [''farewell'']\<rparr>"


definition byeStore :: MemorySystem where
  "byeStore = storeAll [(0, ''b'', byeArgs), (0, ''a'', helloArgs)] (MemorySystem_new 50 1000)"

section \<open>Mood classification\<close>

lemma calculateMoodFromState_table:
  "calculateMoodFromState me =
     spec_mood (energy (emotionalState me)) (stress (emotionalState me))
       (confidence (emotionalState me)) (socialBattery (emotionalState me))"
  by (simp add: calculateMoodFromState_def spec_mood_def spec_mood_rules_def Let_def)

text \<open>
  Claim C2. \<open>calculateMoodFromState\<close> is the six-rule priority table of the specification
  applied to the four scalars energy, stress, confidence and socialBattery: it reads nothing
  else of the engine (not the current mood, the thoughts or the mood history), so two engines
  that agree on the four scalars get the same mood whatever their histories. At
  (energy 75, stress 80) the mood is anxious, at (energy 20, stress 10) contemplative and at
  (energy 85, stress 10, confidence 75) joyful, for every value of the remaining fields.
\<close>

theorem mood_classification_is_spec_table:
  "calculateMoodFromState me =
     spec_mood (energy (emotionalState me)) (stress (emotionalState me))
       (confidence (emotionalState me)) (socialBattery (emotionalState me))
   \<and> (energy (emotionalState me) = energy (emotionalState me')
        \<and> stress (emotionalState me) = stress (emotionalState me')
        \<and> confidence (emotionalState me) = confidence (emotionalState me')
        \<and> socialBattery (emotionalState me) = socialBattery (emotionalState me')
      \<longrightarrow> calculateMoodFromState me = calculateMoodFromState me')
   \<and> calculateMoodFromState
        \<lparr>emotionalState = \<lparr>mood = m, energy = 75, stress = 80, confidence = c,
                           socialBattery = b\<rparr>, thoughts = ts, moodHistory = h\<rparr> = Anxious
   \<and> calculateMoodFromState
        \<lparr>emotionalState = \<lparr>mood = m, energy = 20, stress = 10, confidence = c,
                           socialBattery = b\<rparr>, thoughts = ts, moodHistory = h\<rparr> = Contemplative
   \<and> calculateMoodFromState
        \<lparr>emotionalState = \<lparr>mood = m, energy = 85, stress = 10, confidence = 75,
                           socialBattery = b\<rparr>, thoughts = ts, moodHistory = h\<rparr> = Joyful"
proof -
  have scen: "spec_mood 75 80 c b = Anxious" "spec_mood 20 10 c b = Contemplative"
    "spec_mood 85 10 75 b = Joyful"
    by (simp_all add: spec_mood_def spec_mood_rules_def)
  show ?thesis
    by (simp add: calculateMoodFromState_table scen)
qed

theorem mood_classification_is_spec_table_witness:
  "calculateMoodFromState (MoodEngine_new 0 Neutral) = Curious
   \<and> calculateMoodFromState
        ((MoodEngine_new 1000 Joyful)\<lparr>moodHistory := [(Calm, 5), (Anxious, 7)]\<rparr>) = Curious"
  using mood_classification_is_spec_table
    [of "MoodEngine_new 0 Neutral"
        "(MoodEngine_new 1000 Joyful)\<lparr>moodHistory := [(Calm, 5), (Anxious, 7)]\<rparr>"
        Neutral 0 0 "[]" "[]"]
  by (simp add: MoodEngine_new_def recordMoodChange_def spec_mood_def spec_mood_rules_def
      calculateMoodFromState_def)

section \<open>Trait adaptation\<close>

lemma getTrait_setTrait:
  "getTrait k (setTrait k' v b) = (if k = k' then v else getTrait k b)"
  by (cases k; cases k') simp_all

lemma getTrait_updateEntry:
  "getTrait k (updateEntry r e b) =
     (if k = fst e then
        (case snd e of
           None \<Rightarrow> getTrait k b
         | Some v \<Rightarrow> max 0 (min 100 (getTrait k b + (v - getTrait k b) * (r / 100))))
      else getTrait k b)"
  by (simp add: updateEntry_def Let_def getTrait_setTrait split: option.split)







section \<open>Memory statistics\<close>

lemma js_add_Finite_not_NaN:
  assumes "\<And>x. fl x \<noteq> NaN" and "a \<noteq> NaN"
  shows "js_add fl a (Finite v) \<noteq> NaN"
  using assms by (cases a) simp_all

lemma fold_js_add_not_NaN:
  assumes "\<And>x. fl x \<noteq> NaN" and "a \<noteq> NaN"
  shows "fold (\<lambda>m sum. js_add fl sum (Finite (importance m))) xs a \<noteq> NaN"
  using assms(2)
proof (induction xs arbitrary: a)
  case Nil
  then show ?case by simp
next
  case (Cons x xs)
  from assms(1) Cons.prems have "js_add fl a (Finite (importance x)) \<noteq> NaN"
    by (rule js_add_Finite_not_NaN)
  then show ?case by (simp add: Cons.IH)
qed

lemma js_div_length_not_NaN:
  assumes "\<And>x. fl x \<noteq> NaN" and "a \<noteq> NaN" and "0 < n"
  shows "js_div fl a (Finite (real n)) \<noteq> NaN"
  using assms by (cases a) simp_all

lemma avgImportanceRaw_NaN_iff:
  assumes "\<And>x. fl x \<noteq> NaN"
  shows "avgImportanceRaw fl xs = NaN \<longleftrightarrow> xs = []"
proof (cases "xs = []")
  case True
  then show ?thesis by (simp add: avgImportanceRaw_def)
next
  case False
  from assms have "fold (\<lambda>m sum. js_add fl sum (Finite (importance m))) xs (Finite 0) \<noteq> NaN"
    by (rule fold_js_add_not_NaN) simp
  with assms have "avgImportanceRaw fl xs \<noteq> NaN"
    unfolding avgImportanceRaw_def using False by (intro js_div_length_not_NaN) simp_all
  with False show ?thesis by simp
qed

lemma js_round_or_zero_not_NaN: "js_round (js_or_zero x) \<noteq> NaN"
  by (cases x) simp_all

lemma js_round_or_zero_cases:
  "(\<exists>n::int. js_round (js_or_zero x) = Finite (of_int n))
   \<or> js_round (js_or_zero x) = PosInfinity \<or> js_round (js_or_zero x) = NegInfinity"
  by (cases x) simp_all

lemma averageImportance_getStats:
  "averageImportance (getStats fl ms)
     = js_round (js_or_zero (avgImportanceRaw fl (map_values (memories ms))))"
  by (simp add: getStats_def Let_def)

text \<open>
  Claim C10, as the code has it. \<open>getStats\<close> is total and raises no error. On a memory
  system without memories it does divide by zero: the quotient \<open>0 / 0\<close> is \<open>NaN\<close>,
  which \<open>|| 0\<close> replaces by \<open>0\<close>, so the result has \<open>totalMemories = 0\<close>,
  \<open>shortTermCount = 0\<close>, \<open>longTermCount = 0\<close> and \<open>averageImportance = 0\<close>. In every
  state of the memory system, and whatever the rounding of the double arithmetic, the three
  counts are the lengths of the index and of the two lists, and the average importance is
  \<open>Math.round\<close> of the quotient with \<open>NaN\<close> and \<open>0\<close> replaced by \<open>0\<close>: it is
  never \<open>NaN\<close>, it is an integer or, when the sum of the importances overflows, an
  infinity. The quotient itself (of finite importances, as the model has them) is \<open>NaN\<close>
  exactly when the index is empty.
\<close>

theorem getStats_total:
  "getStats fl \<lparr>memories = [], shortTermMemory = [], longTermMemory = [],
             maxShortTermSize = a, maxLongTermSize = b\<rparr>
     = \<lparr>totalMemories = 0, shortTermCount = 0, longTermCount = 0,
        averageImportance = Finite 0, memoryTypes = []\<rparr>
   \<and> getStats fl (MemorySystem_new a b)
     = \<lparr>totalMemories = 0, shortTermCount = 0, longTermCount = 0,
        averageImportance = Finite 0, memoryTypes = []\<rparr>
   \<and> averageImportance (getStats fl ms)
       = js_round (js_or_zero (avgImportanceRaw fl (map_values (memories ms))))
   \<and> averageImportance (getStats fl ms) \<noteq> NaN
   \<and> ((\<exists>n::int. averageImportance (getStats fl ms) = Finite (of_int n))
        \<or> averageImportance (getStats fl ms) = PosInfinity
        \<or> averageImportance (getStats fl ms) = NegInfinity)
   \<and> ((\<forall>x. fl x \<noteq> NaN)
        \<longrightarrow> (avgImportanceRaw fl (map_values (memories ms)) = NaN \<longleftrightarrow> memories ms = []))
   \<and> totalMemories (getStats fl ms) = length (memories ms)
   \<and> shortTermCount (getStats fl ms) = length (shortTermMemory ms)
   \<and> longTermCount (getStats fl ms) = length (longTermMemory ms)"
proof -
  have empty: "getStats fl \<lparr>memories = [], shortTermMemory = [], longTermMemory = [],
             maxShortTermSize = a, maxLongTermSize = b\<rparr>
     = \<lparr>totalMemories = 0, shortTermCount = 0, longTermCount = 0,
        averageImportance = Finite 0, memoryTypes = []\<rparr>"
    by (simp add: getStats_def Let_def map_values_def avgImportanceRaw_def Math_round_def)
  then have new: "getStats fl (MemorySystem_new a b)
     = \<lparr>totalMemories = 0, shortTermCount = 0, longTermCount = 0,
        averageImportance = Finite 0, memoryTypes = []\<rparr>"
    by (simp only: MemorySystem_new_def)
  have nan: "averageImportance (getStats fl ms) \<noteq> NaN"
    by (simp only: averageImportance_getStats js_round_or_zero_not_NaN not_False_eq_True)
  have cases: "(\<exists>n::int. averageImportance (getStats fl ms) = Finite (of_int n))
        \<or> averageImportance (getStats fl ms) = PosInfinity
        \<or> averageImportance (getStats fl ms) = NegInfinity"
    unfolding averageImportance_getStats by (rule js_round_or_zero_cases)
  have raw: "(\<forall>x. fl x \<noteq> NaN)
        \<longrightarrow> (avgImportanceRaw fl (map_values (memories ms)) = NaN \<longleftrightarrow> memories ms = [])"
    by (simp add: avgImportanceRaw_NaN_iff map_values_def)
  have counts: "totalMemories (getStats fl ms) = length (memories ms)"
    "shortTermCount (getStats fl ms) = length (shortTermMemory ms)"
    "longTermCount (getStats fl ms) = length (longTermMemory ms)"
    by (simp_all add: getStats_def Let_def map_values_def)
  from empty new averageImportance_getStats [of fl ms] nan cases raw counts show ?thesis
    by (intro conjI)
qed

theorem getStats_total_witness:
  "(\<forall>x. Finite x \<noteq> NaN)
   \<and> memories byeStore \<noteq> []
   \<and> avgImportanceRaw Finite (map_values (memories byeStore)) = Finite 50
   \<and> getStats Finite byeStore
       = \<lparr>totalMemories = 2, shortTermCount = 2, longTermCount = 0,
          averageImportance = Finite 50, memoryTypes = [(Episodic, 2)]\<rparr>"
proof -
  have st: "byeStore =
     \<lparr>memories = [(''b'', makeMemory 0 ''b'' byeArgs), (''a'', makeMemory 0 ''a'' helloArgs)],
      shortTermMemory = [makeMemory 0 ''a'' helloArgs, makeMemory 0 ''b'' byeArgs],
      longTermMemory = [], maxShortTermSize = 50, maxLongTermSize = 1000\<rparr>"
    by (simp add: byeStore_def store_def MemorySystem_new_def Let_def consolidateMemories_def
        consolidateShort_def consolidateLong_def makeMemory_def)
  have raw: "avgImportanceRaw Finite (map_values (memories byeStore)) = Finite 50"
    by (simp add: st avgImportanceRaw_def map_values_def makeMemory_def byeArgs_def
        helloArgs_def)
  have stats: "getStats Finite byeStore
       = \<lparr>totalMemories = 2, shortTermCount = 2, longTermCount = 0,
          averageImportance = Finite 50, memoryTypes = [(Episodic, 2)]\<rparr>"
    by (simp add: getStats_def Let_def raw)
      (simp add: st map_values_def makeMemory_def byeArgs_def helloArgs_def Math_round_def)
  have ne: "memories byeStore \<noteq> []"
    by (simp add: st)
  from getStats_total [of Finite 50 1000 byeStore] raw stats ne show ?thesis
    by simp
qed

text \<open>
  \<open>getStats\<close> does divide by zero. On \<open>new MemorySystem()\<close> the divisor
  \<open>allMemories.length\<close> is 0 and the quotient is \<open>0 / 0\<close>, that is \<open>NaN\<close>; only the
  \<open>|| 0\<close> that follows the division makes the average 0.
\<close>

theorem getStats_divides_zero_by_zero_counterexample:
  "length (map_values (memories (MemorySystem_new 50 1000))) = 0
   \<and> avgImportanceRaw Finite (map_values (memories (MemorySystem_new 50 1000)))
       = js_div Finite (Finite 0) (Finite 0)
   \<and> avgImportanceRaw Finite (map_values (memories (MemorySystem_new 50 1000))) = NaN
   \<and> averageImportance (getStats Finite (MemorySystem_new 50 1000)) = Finite 0"
  by (simp add: MemorySystem_new_def map_values_def avgImportanceRaw_def getStats_def Let_def
      Math_round_def)

section \<open>Consolidation\<close>

lemma fold_promoteOrForget:
  "fold promoteOrForget xs ms =
     ms\<lparr>longTermMemory := rev (filter (\<lambda>m. importance m \<ge> 60) xs) @ longTermMemory ms,
        memories := filter (\<lambda>p. fst p \<notin> mem_id ` set (filter (\<lambda>m. \<not> importance m \<ge> 60) xs))
                      (memories ms)\<rparr>"
proof (induction xs arbitrary: ms)
  case Nil
  then show ?case by simp
next
  case (Cons x xs)
  have step: "promoteOrForget x ms =
      ms\<lparr>longTermMemory := (if importance x \<ge> 60 then [x] else []) @ longTermMemory ms,
         memories := (if importance x \<ge> 60 then memories ms
                      else filter (\<lambda>p. fst p \<noteq> mem_id x) (memories ms))\<rparr>"
    by (simp add: promoteOrForget_def map_delete_def)
  have "fold promoteOrForget (x # xs) ms = fold promoteOrForget xs (promoteOrForget x ms)"
    by simp
  also note Cons [of "promoteOrForget x ms"]
  finally show ?case
    by (simp add: step conj_commute cong: filter_cong)
qed

lemma fold_forget:
  "fold forget xs ms =
     ms\<lparr>memories := filter (\<lambda>p. fst p \<notin> mem_id ` set xs) (memories ms)\<rparr>"
proof (induction xs arbitrary: ms)
  case Nil
  then show ?case by simp
next
  case (Cons x xs)
  have step: "forget x ms = ms\<lparr>memories := filter (\<lambda>p. fst p \<noteq> mem_id x) (memories ms)\<rparr>"
    by (simp add: forget_def map_delete_def)
  have "fold forget (x # xs) ms = fold forget xs (forget x ms)"
    by simp
  also note Cons [of "forget x ms"]
  finally show ?case
    by (simp add: step conj_commute cong: filter_cong)
qed

lemma consolidateShort_eq:
  "consolidateShort ms =
     ms\<lparr>shortTermMemory := take (maxShortTermSize ms) (shortTermMemory ms),
        longTermMemory :=
          rev (filter (\<lambda>m. importance m \<ge> 60) (drop (maxShortTermSize ms) (shortTermMemory ms)))
            @ longTermMemory ms,
        memories :=
          filter (\<lambda>p. fst p \<notin> mem_id ` set (filter (\<lambda>m. \<not> importance m \<ge> 60)
                                  (drop (maxShortTermSize ms) (shortTermMemory ms))))
            (memories ms)\<rparr>"
  by (simp add: consolidateShort_def Let_def fold_promoteOrForget)

lemma consolidateLong_eq:
  "consolidateLong ms =
     ms\<lparr>longTermMemory := take (maxLongTermSize ms) (longTermMemory ms),
        memories :=
          filter (\<lambda>p. fst p \<notin> mem_id ` set (drop (maxLongTermSize ms) (longTermMemory ms)))
            (memories ms)\<rparr>"
  by (simp add: consolidateLong_def Let_def fold_forget)


lemma map_set_fresh: "k \<notin> fst ` set m \<Longrightarrow> map_set k v m = m @ [(k, v)]"
  by (induction m) auto

lemma storeAll_snoc:
  "storeAll (cs @ [c]) ms = snd (store (fst c) (fst (snd c)) (snd (snd c)) (storeAll cs ms))"
  by (induction cs arbitrary: ms) simp_all

lemma mem_id_callMemory [simp]: "mem_id (callMemory c) = fst (snd c)"
  by (simp add: callMemory_def makeMemory_def)

lemma store_call_eq:
  "snd (store (fst c) (fst (snd c)) (snd (snd c)) ms) =
     consolidateLong (consolidateShort
       (ms\<lparr>memories := map_set (fst (snd c)) (callMemory c) (memories ms),
           shortTermMemory := callMemory c # shortTermMemory ms\<rparr>))"
  by (simp add: store_def Let_def consolidateMemories_def callMemory_def makeMemory_def)

lemma storeAll_within_capacity:
  "distinct (map (fst \<circ> snd) calls) \<Longrightarrow> length calls \<le> cap \<Longrightarrow>
   storeAll calls (MemorySystem_new cap lcap) =
     \<lparr>memories = map callEntry calls, shortTermMemory = rev (map callMemory calls),
      longTermMemory = [], maxShortTermSize = cap, maxLongTermSize = lcap\<rparr>"
proof (induction calls rule: rev_induct)
  case Nil
  then show ?case by (simp add: MemorySystem_new_def)
next
  case (snoc c cs)
  then have prev: "storeAll cs (MemorySystem_new cap lcap) =
     \<lparr>memories = map callEntry cs, shortTermMemory = rev (map callMemory cs),
      longTermMemory = [], maxShortTermSize = cap, maxLongTermSize = lcap\<rparr>"
    by simp
  from snoc.prems have fresh: "fst (snd c) \<notin> fst ` set (map callEntry cs)"
    by (auto simp: callEntry_def image_iff)
  from snoc.prems have len: "Suc (length cs) \<le> cap" by simp
  show ?case
    using len
    by (simp add: storeAll_snoc prev store_call_eq map_set_fresh [OF fresh]
        consolidateShort_eq consolidateLong_eq callEntry_def)
qed

lemma storeAll_capacity_plus_one:
  assumes dist: "distinct (map (fst \<circ> snd) (c0 # rest))"
  shows "storeAll (c0 # rest) (MemorySystem_new (length rest) lcap) =
     \<lparr>memories = (if importance (callMemory c0) \<ge> 60 \<and> 0 < lcap
                   then map callEntry (c0 # rest) else map callEntry rest),
      shortTermMemory = rev (map callMemory rest),
      longTermMemory = (if importance (callMemory c0) \<ge> 60 \<and> 0 < lcap
                         then [callMemory c0] else []),
      maxShortTermSize = length rest, maxLongTermSize = lcap\<rparr>"
proof -
  define cap where "cap = length rest"
  define bl where "bl = butlast (c0 # rest)"
  define l where "l = last (c0 # rest)"
  have split: "c0 # rest = bl @ [l]"
    unfolding bl_def l_def by (rule append_butlast_last_id [symmetric]) simp
  have len_bl: "length bl = cap"
    unfolding bl_def cap_def by simp
  from dist have dist_bl: "distinct (map (fst \<circ> snd) bl)"
    unfolding split by simp
  have prev: "storeAll bl (MemorySystem_new cap lcap) =
     \<lparr>memories = map callEntry bl, shortTermMemory = rev (map callMemory bl),
      longTermMemory = [], maxShortTermSize = cap, maxLongTermSize = lcap\<rparr>"
    using storeAll_within_capacity [OF dist_bl, of cap lcap] len_bl by simp
  from dist have fresh: "fst (snd l) \<notin> fst ` set (map callEntry bl)"
    unfolding split by (auto simp: callEntry_def image_iff)
  have short: "callMemory l # rev (map callMemory bl) = rev (map callMemory (c0 # rest))"
    unfolding split by simp
  have mems: "map callEntry bl @ [callEntry l] = map callEntry (c0 # rest)"
    unfolding split by simp
  have tk: "take cap (rev (map callMemory (c0 # rest))) = rev (map callMemory rest)"
    by (simp add: take_rev cap_def del: rev.simps)
  have dr: "drop cap (rev (map callMemory (c0 # rest))) = [callMemory c0]"
    by (simp add: drop_rev cap_def del: rev.simps)
  from dist have notin: "\<forall>x\<in>set rest. fst (snd x) \<noteq> fst (snd c0)"
    by (force simp: image_iff)
  have filt: "filter (\<lambda>p. fst p \<noteq> fst (snd c0)) (map callEntry (c0 # rest)) = map callEntry rest"
    using notin by (simp add: callEntry_def filter_map o_def)
  have "storeAll (c0 # rest) (MemorySystem_new cap lcap) =
          snd (store (fst l) (fst (snd l)) (snd (snd l)) (storeAll bl (MemorySystem_new cap lcap)))"
    unfolding split by (rule storeAll_snoc)
  also have "\<dots> = consolidateLong (consolidateShort
       \<lparr>memories = map callEntry (c0 # rest),
        shortTermMemory = rev (map callMemory (c0 # rest)),
        longTermMemory = [], maxShortTermSize = cap, maxLongTermSize = lcap\<rparr>)"
    using mems short
    by (simp add: prev store_call_eq map_set_fresh [OF fresh] callEntry_def del: rev.simps)
  also have "\<dots> = \<lparr>memories = (if importance (callMemory c0) \<ge> 60 \<and> 0 < lcap
                   then map callEntry (c0 # rest) else map callEntry rest),
      shortTermMemory = rev (map callMemory rest),
      longTermMemory = (if importance (callMemory c0) \<ge> 60 \<and> 0 < lcap
                         then [callMemory c0] else []),
      maxShortTermSize = cap, maxLongTermSize = lcap\<rparr>"
    using filt
    by (simp add: consolidateShort_eq consolidateLong_eq tk dr del: rev.simps list.map)
  finally show ?thesis
    by (simp add: cap_def)
qed


lemma scenarioCalls_distinct: "distinct (map (fst \<circ> snd) (scenarioCalls a b))"
proof -
  have "map (fst \<circ> snd) (scenarioCalls a b) = map (\<lambda>i. replicate (Suc i) (CHR ''m'')) [0..<51]"
    by (simp add: scenarioCalls_def scenarioCall_def upt_conv_Cons [of 0] o_def)
  moreover have "distinct (map (\<lambda>i. replicate (Suc i) (CHR ''m'')) [0..<51])"
    by (simp add: distinct_map inj_on_def)
  ultimately show ?thesis by simp
qed

lemma scenario_state:
  "storeAll (scenarioCalls a b) (MemorySystem_new 50 1000) =
     \<lparr>memories = (if a \<ge> 60 then map callEntry (scenarioCalls a b)
                   else map callEntry (tl (scenarioCalls a b))),
      shortTermMemory = rev (map callMemory (tl (scenarioCalls a b))),
      longTermMemory = (if a \<ge> 60 then [callMemory (scenarioCall 0 a)] else []),
      maxShortTermSize = 50, maxLongTermSize = 1000\<rparr>"
  using storeAll_capacity_plus_one
    [of "scenarioCall 0 a" "map (\<lambda>i. scenarioCall i b) [1..<51]" 1000]
    scenarioCalls_distinct [of a b]
  by (simp add: scenarioCalls_def callMemory_def makeMemory_def scenarioCall_def)

text \<open>
  Claim C3, as the code has it. Every \<open>store\<close> ends with a consolidation pass. The pass
  keeps the first \<open>maxShortTermSize\<close> items of the short-term list and removes the items
  behind them (the tail); each removed item of importance at least 60 is put in front of the
  long-term list, every other removed item is deleted from the primary index. Storing
  capacity + 1 records with distinct ids (\<open>c0\<close> first, then the \<open>capacity\<close> calls of
  \<open>rest\<close>) into a new store leaves exactly \<open>capacity\<close> short-term records, the later
  ones; the single removed record is the one stored first. It is promoted (long-term list
  and index keep it) when its own importance is at least 60 and the long-term capacity is
  not zero, and otherwise deleted from the index; the importance of the record stored last
  plays no part.
\<close>

theorem consolidation_after_store:
  assumes "distinct (map (fst \<circ> snd) (c0 # rest))"
  shows "snd (store now uuid a ms) =
           consolidateMemories
             (ms\<lparr>memories := map_set uuid (makeMemory now uuid a) (memories ms),
                 shortTermMemory := makeMemory now uuid a # shortTermMemory ms\<rparr>)
       \<and> shortTermMemory (consolidateShort ms) = take (maxShortTermSize ms) (shortTermMemory ms)
       \<and> longTermMemory (consolidateShort ms) =
           rev (filter (\<lambda>m. importance m \<ge> 60)
                  (drop (maxShortTermSize ms) (shortTermMemory ms))) @ longTermMemory ms
       \<and> memories (consolidateShort ms) =
           filter (\<lambda>p. fst p \<notin> mem_id ` set (filter (\<lambda>m. \<not> importance m \<ge> 60)
                                   (drop (maxShortTermSize ms) (shortTermMemory ms))))
             (memories ms)
       \<and> shortTermMemory (storeAll (c0 # rest) (MemorySystem_new (length rest) lcap))
           = rev (map callMemory rest)
       \<and> length (shortTermMemory (storeAll (c0 # rest) (MemorySystem_new (length rest) lcap)))
           = length rest
       \<and> longTermMemory (storeAll (c0 # rest) (MemorySystem_new (length rest) lcap))
           = (if importance (callMemory c0) \<ge> 60 \<and> 0 < lcap then [callMemory c0] else [])
       \<and> memories (storeAll (c0 # rest) (MemorySystem_new (length rest) lcap))
           = (if importance (callMemory c0) \<ge> 60 \<and> 0 < lcap
              then map callEntry (c0 # rest) else map callEntry rest)"
proof -
  have st: "snd (store now uuid a ms) =
           consolidateMemories
             (ms\<lparr>memories := map_set uuid (makeMemory now uuid a) (memories ms),
                 shortTermMemory := makeMemory now uuid a # shortTermMemory ms\<rparr>)"
    by (simp add: store_def Let_def makeMemory_def)
  have cs: "shortTermMemory (consolidateShort ms) = take (maxShortTermSize ms) (shortTermMemory ms)"
    "longTermMemory (consolidateShort ms) =
           rev (filter (\<lambda>m. importance m \<ge> 60)
                  (drop (maxShortTermSize ms) (shortTermMemory ms))) @ longTermMemory ms"
    "memories (consolidateShort ms) =
           filter (\<lambda>p. fst p \<notin> mem_id ` set (filter (\<lambda>m. \<not> importance m \<ge> 60)
                                   (drop (maxShortTermSize ms) (shortTermMemory ms))))
             (memories ms)"
    by (simp_all add: consolidateShort_eq)
  show ?thesis
    unfolding storeAll_capacity_plus_one [OF assms]
    using st cs by simp
qed

theorem consolidation_after_store_witness:
  "distinct (map (fst \<circ> snd) (scenarioCalls 40 70))
   \<and> length (shortTermMemory (storeAll (scenarioCalls 40 70) (MemorySystem_new 50 1000))) = 50
   \<and> longTermMemory (storeAll (scenarioCalls 40 70) (MemorySystem_new 50 1000)) = []
   \<and> length (memories (storeAll (scenarioCalls 40 70) (MemorySystem_new 50 1000))) = 50
   \<and> \<not> map_has ''m'' (memories (storeAll (scenarioCalls 40 70) (MemorySystem_new 50 1000)))"
  using consolidation_after_store
    [of "scenarioCall 0 40" "map (\<lambda>i. scenarioCall i 70) [1..<51]" 0 "''x''"
        "\<lparr>arg_content = ''y'', arg_type = Episodic, arg_importance = 0,
          arg_emotional_weight = 0, arg_tags = []\<rparr>"
        "MemorySystem_new 50 1000" 1000]
    scenarioCalls_distinct [of 40 70]
  by (simp add: scenarioCalls_def callMemory_def makeMemory_def scenarioCall_def map_has_def
      callEntry_def o_def)

text \<open>
  The scenario as the specification words it does not hold: with capacity 50 and 51 records
  stored, the 51st of importance 40 and the first of importance 100, the record that leaves
  the short-term list is the first one, and it is promoted to the long-term list and kept in
  the index, not deleted.
\<close>

theorem demoted_record_promoted_counterexample:
  "length (scenarioCalls 100 40) = 51
   \<and> arg_importance (snd (snd (last (scenarioCalls 100 40)))) = 40
   \<and> length (shortTermMemory (storeAll (scenarioCalls 100 40) (MemorySystem_new 50 1000))) = 50
   \<and> map mem_id (longTermMemory (storeAll (scenarioCalls 100 40) (MemorySystem_new 50 1000)))
       = [''m'']
   \<and> map_has ''m'' (memories (storeAll (scenarioCalls 100 40) (MemorySystem_new 50 1000)))
   \<and> length (memories (storeAll (scenarioCalls 100 40) (MemorySystem_new 50 1000))) = 51"
  by (simp add: scenario_state)
    (simp add: scenarioCalls_def scenarioCall_def map_has_def callEntry_def callMemory_def
      makeMemory_def last_map)

section \<open>Recall\<close>





lemma toLowerCase_Latin1:
  "toLowerCase [CHR 0x43, CHR 0x41, CHR 0x46, CHR 0xC9] = [CHR 0x63, CHR 0x61, CHR 0x66, CHR 0xE9]"
  "toLowerChar (CHR 0xC0) = CHR 0xE0"
  "toLowerChar (CHR 0xDE) = CHR 0xFE"
  "toLowerChar (CHR 0xD7) = CHR 0xD7"
  "toLowerChar (CHR 0xDF) = CHR 0xDF"
  "toLowerChar (CHR 0xE9) = CHR 0xE9"
  by (simp_all add: toLowerCase_def)
















section \<open>Emotional-impact classifier\<close>

lemma fold_count_words:
  "fold (\<lambda>word score. if P word then score + 1 else score) ws (n::nat) =
     n + length (filter P ws)"
  by (induction ws arbitrary: n) simp_all

lemma wordScore_eq: "wordScore ws s = length (filter (str_includes s) ws)"
  by (simp add: wordScore_def fold_count_words)

text \<open>
  Claim C6, as the code has it. The score of a side is the number of its lexicon words that
  occur in the lower-cased input (a word counts once however often it occurs). The polarity
  is the side with the strictly greater score and neutral on a tie. The intensity is
  \<open>min(80, 30 + 15 * score of the winning side)\<close> when one side wins and 20 on every tie,
  also a tie with matches. The importance is \<open>30 + min(50, length / 2)\<close>, the emotional
  weight is the intensity for positive polarity, its negation for negative polarity and 0
  for neutral; so the intensity lies in [20,80], the importance in [30,80] and the weight in
  [-80,80].
\<close>

theorem analyzeEmotionalImpact_classification:
  "ei_type (analyzeEmotionalImpact input) =
     (if wordScore positiveWords (toLowerCase input) > wordScore negativeWords (toLowerCase input)
      then Positive
      else if wordScore negativeWords (toLowerCase input) > wordScore positiveWords (toLowerCase input)
      then Negative else NeutralStimulus)
   \<and> ei_intensity (analyzeEmotionalImpact input) =
     (if wordScore positiveWords (toLowerCase input) = wordScore negativeWords (toLowerCase input)
      then 20
      else min 80 (30 + 15 * real (max (wordScore positiveWords (toLowerCase input))
                                        (wordScore negativeWords (toLowerCase input)))))
   \<and> ei_importance (analyzeEmotionalImpact input) = 30 + min 50 (real (length input) / 2)
   \<and> emotionalWeight (analyzeEmotionalImpact input) =
     (case ei_type (analyzeEmotionalImpact input) of
        Positive \<Rightarrow> ei_intensity (analyzeEmotionalImpact input)
      | Negative \<Rightarrow> - ei_intensity (analyzeEmotionalImpact input)
      | NeutralStimulus \<Rightarrow> 0)
   \<and> wordScore positiveWords (toLowerCase input)
       = length (filter (str_includes (toLowerCase input)) positiveWords)
   \<and> wordScore negativeWords (toLowerCase input)
       = length (filter (str_includes (toLowerCase input)) negativeWords)
   \<and> 20 \<le> ei_intensity (analyzeEmotionalImpact input)
   \<and> ei_intensity (analyzeEmotionalImpact input) \<le> 80
   \<and> 30 \<le> ei_importance (analyzeEmotionalImpact input)
   \<and> ei_importance (analyzeEmotionalImpact input) \<le> 80
   \<and> \<bar>emotionalWeight (analyzeEmotionalImpact input)\<bar> \<le> 80"
  by (auto simp add: analyzeEmotionalImpact_def Let_def wordScore_eq max_def min_def)

theorem analyzeEmotionalImpact_classification_witness:
  "ei_type (analyzeEmotionalImpact ''I LOVE this, it is great'') = Positive
   \<and> ei_intensity (analyzeEmotionalImpact ''I LOVE this, it is great'') = 60
   \<and> ei_importance (analyzeEmotionalImpact ''I LOVE this, it is great'') = 42
   \<and> emotionalWeight (analyzeEmotionalImpact ''I LOVE this, it is great'') = 60"
  using analyzeEmotionalImpact_classification [of "''I LOVE this, it is great''"]
  by (simp add: wordScore_eq positiveWords_def negativeWords_def toLowerCase_def)

text \<open>
  The intensity rule of the specification fails on a tie with matches: in \<open>good bad\<close> one
  positive and one negative word occur, so there is a lexicon match, yet the polarity is
  neutral and the intensity is 20, not \<open>min(80, 30 + 15 * matchCount)\<close> for a match count
  of 1 (45) or 2 (60).
\<close>

theorem tie_with_matches_counterexample:
  "wordScore positiveWords (toLowerCase ''good bad'') = 1
   \<and> wordScore negativeWords (toLowerCase ''good bad'') = 1
   \<and> ei_type (analyzeEmotionalImpact ''good bad'') = NeutralStimulus
   \<and> ei_intensity (analyzeEmotionalImpact ''good bad'') = 20
   \<and> spec_intensity 1 = 45 \<and> spec_intensity 2 = 60"
  by (simp add: analyzeEmotionalImpact_def Let_def wordScore_def positiveWords_def
      negativeWords_def toLowerCase_def spec_intensity_def)

section \<open>The emotional state under the operations of the mood engine\<close>

lemma emotionalState_recordMoodChange [simp]:
  "emotionalState (recordMoodChange now m me) = emotionalState me"
  by (simp add: recordMoodChange_def Let_def)

lemma emotionalState_addThought [simp]:
  "emotionalState (snd (addThought now uuid content ty trig me)) = emotionalState me"
  by (simp add: addThought_def Let_def)

lemma updateMood_emotionalState:
  "emotionalState (snd (updateMood now uuid stimulus me)) =
     (adjustState stimulus (emotionalState me))
       \<lparr>mood := calculateMoodFromState
                  (me\<lparr>emotionalState := adjustState stimulus (emotionalState me)\<rparr>)\<rparr>"
  by (simp add: updateMood_def Let_def)

section \<open>Ranges\<close>

lemma adjustState_in_range:
  "0 \<le> intensity stim \<Longrightarrow> in_range es \<Longrightarrow> in_range (adjustState stim es)"
  by (cases "stim_type stim") (auto simp: in_range_def adjustState_def moveToward_def)

text \<open>
  With a stimulus of non-negative intensity \<open>updateMood\<close> keeps the four scalars of the
  emotional state within [0,100].
\<close>

lemma updateMood_in_range:
  "0 \<le> intensity stim \<Longrightarrow> in_range (emotionalState me) \<Longrightarrow>
   in_range (emotionalState (snd (updateMood now uuid stim me)))"
  using adjustState_in_range [of stim "emotionalState me"]
  by (simp add: updateMood_emotionalState in_range_def)

lemma updateEntry_in_range:
  assumes "\<And>k. 0 \<le> getTrait k b \<and> getTrait k b \<le> 100"
  shows "0 \<le> getTrait k (updateEntry r e b) \<and> getTrait k (updateEntry r e b) \<le> 100"
  using assms [of k] by (auto simp add: getTrait_updateEntry split: option.split)

text \<open>\<open>updateBigFive\<close> keeps every trait within [0,100] once all of them are.\<close>

lemma updateBigFive_in_range:
  assumes "\<And>k. 0 \<le> getTrait k (getBigFive ps) \<and> getTrait k (getBigFive ps) \<le> 100"
  shows "0 \<le> getTrait k (getBigFive (updateBigFive changes ps))
       \<and> getTrait k (getBigFive (updateBigFive changes ps)) \<le> 100"
proof -
  have "\<forall>k. 0 \<le> getTrait k (fold (updateEntry r) changes b)
            \<and> getTrait k (fold (updateEntry r) changes b) \<le> 100"
    if "\<forall>k. 0 \<le> getTrait k b \<and> getTrait k b \<le> 100" for r b
    using that
  proof (induction changes arbitrary: b)
    case Nil
    then show ?case by simp
  next
    case (Cons e es)
    have "\<forall>k. 0 \<le> getTrait k (updateEntry r e b) \<and> getTrait k (updateEntry r e b) \<le> 100"
      using Cons.prems updateEntry_in_range [of b _ r e] by blast
    from Cons.IH [OF this] show ?case by simp
  qed
  with assms show ?thesis
    by (simp add: updateBigFive_def getBigFive_def)
qed

text \<open>
  Claim C1 at the input that breaks it. \<open>store\<close> writes the importance and the emotional
  weight it is given: stored with importance 150 and weight -250, the record returned and
  the record in the primary index carry 150 and -250, outside [0,100] and [-100,100].
\<close>

theorem store_writes_values_unclamped:
  "importance (fst (store 0 ''x'' outOfRangeArgs (MemorySystem_new 50 1000))) = 150
   \<and> emotional_weight (fst (store 0 ''x'' outOfRangeArgs (MemorySystem_new 50 1000))) = - 250
   \<and> map (\<lambda>p. (importance (snd p), emotional_weight (snd p)))
        (memories (snd (store 0 ''x'' outOfRangeArgs (MemorySystem_new 50 1000))))
      = [(150, - 250)]"
  by (simp add: store_def Let_def makeMemory_def MemorySystem_new_def consolidateMemories_def
      consolidateShort_def consolidateLong_def outOfRangeArgs_def)

section \<open>Reflection and personality drift\<close>

lemma countKey_not_Nil [simp]: "countKey k acc \<noteq> []"
  by (cases acc) simp_all

lemma fold_countKey_not_Nil: "xs \<noteq> [] \<or> acc \<noteq> [] \<Longrightarrow> fold countKey xs acc \<noteq> []"
  by (induction xs arbitrary: acc) auto

lemma analyzeMoodTrends_Some: "\<exists>t. analyzeMoodTrends h = Some t"
proof (cases "length h < 2")
  case True
  then show ?thesis by (simp add: analyzeMoodTrends_def)
next
  case False
  then have "0 < length h - (length h - 5)"
    by arith
  then have "0 < length (drop (length h - 5) h)"
    by (simp only: length_drop)
  moreover have "slice_last 5 h = drop (length h - 5) h"
    by (simp add: slice_last_def)
  ultimately have "0 < length (slice_last 5 h)"
    by (simp only:)
  then have "map fst (slice_last 5 h) \<noteq> []"
    by (simp only: length_greater_0_conv map_is_Nil_conv not_False_eq_True)
  then have "fold countKey (map fst (slice_last 5 h)) [] \<noteq> []"
    by (simp add: fold_countKey_not_Nil)
  moreover have "length (sort_desc (\<lambda>e. real (snd e)) (fold countKey (map fst (slice_last 5 h)) []))
      = length (fold countKey (map fst (slice_last 5 h)) [])"
    by (simp only: sort_desc_def length_sort)
  ultimately have "sort_desc (\<lambda>e. real (snd e)) (fold countKey (map fst (slice_last 5 h)) []) \<noteq> []"
    by (metis length_0_conv)
  with False show ?thesis
    by (simp add: analyzeMoodTrends_def Let_def split: list.split)
qed

lemma reflect_Some:
  "\<exists>r s'. reflect now uuid s = Some (r, s')"
  using analyzeMoodTrends_Some [of "getMoodHistory now 24 (moodEngine s)"]
  by (auto simp add: reflect_def Let_def split_beta)

lemma reflect_effect:
  assumes "reflect now uuid s = Some (r, s')"
  shows "personalitySystem s' =
           updateBigFive (adaptations (getRecentMemories 10 (memorySystem s))) (personalitySystem s)"
    and "personalityChanges r = adaptations (getRecentMemories 10 (memorySystem s))"
    and "memorySystem s' =
           snd (store now uuid
                 \<lparr>arg_content = ''I reflected on recent experiences and gained insights: ''
                      @ join '', '' (insights r),
                  arg_type = Semantic, arg_importance = 60, arg_emotional_weight = 10,
                  arg_tags = [''reflection'', ''self-awareness'', ''growth'']\<rparr>
                 (memorySystem s))"
    and "conversationContexts s' = conversationContexts s"
  using assms
  by (auto simp add: reflect_def Let_def split_beta adaptPersonality_def split: option.splits)

lemma getOrCreateContext_other [simp]:
  "memorySystem (snd (getOrCreateContext pid pname s)) = memorySystem s"
  "personalitySystem (snd (getOrCreateContext pid pname s)) = personalitySystem s"
  "moodEngine (snd (getOrCreateContext pid pname s)) = moodEngine s"
  "identity (snd (getOrCreateContext pid pname s)) = identity s"
  by (simp_all add: getOrCreateContext_def Let_def split: option.split)

lemma generateThoughts_other [simp]:
  "memorySystem (snd (generateThoughts env input ctx s)) = memorySystem s"
  "personalitySystem (snd (generateThoughts env input ctx s)) = personalitySystem s"
  "conversationContexts (snd (generateThoughts env input ctx s)) = conversationContexts s"
  "identity (snd (generateThoughts env input ctx s)) = identity s"
  by (simp_all add: generateThoughts_def Let_def split_beta split: option.split prod.split)


lemma respond_personalitySystem [simp]:
  "personalitySystem (snd (respond env input pid pname s)) = personalitySystem s"
  by (simp add: respond_def Let_def split_beta)


lemma respond_memorySystem:
  "memorySystem (snd (respond env input pid pname s)) =
     snd (store (env_now env) (uuid_responseMemory env)
           \<lparr>arg_content = ''I responded: '' @ [CHR 0x22]
                @ response (fst (respond env input pid pname s)) @ [CHR 0x22],
            arg_type = Episodic, arg_importance = 40,
            arg_emotional_weight = emotionalWeight (analyzeEmotionalImpact input) * (1 / 2),
            arg_tags = [''conversation'', toLowerCase pname, ''response'']\<rparr>
           (snd (store (env_now env) (uuid_inputMemory env)
                  \<lparr>arg_content = pname @ '' said: '' @ [CHR 0x22] @ input @ [CHR 0x22],
                   arg_type = Episodic,
                   arg_importance = ei_importance (analyzeEmotionalImpact input),
                   arg_emotional_weight = emotionalWeight (analyzeEmotionalImpact input),
                   arg_tags = [''conversation'', toLowerCase pname, ''input'']\<rparr>
                  (memorySystem s))))"
  by (simp add: respond_def Let_def split_beta)


lemma analyze_love:
  "analyzeEmotionalImpact ''I love this'' =
     \<lparr>ei_type = Positive, ei_intensity = 45, ei_importance = 71 / 2, emotionalWeight = 45\<rparr>"
  by (simp add: analyzeEmotionalImpact_def Let_def wordScore_def positiveWords_def
      negativeWords_def toLowerCase_def)

lemma analyze_hate:
  "analyzeEmotionalImpact ''I hate this'' =
     \<lparr>ei_type = Negative, ei_intensity = 45, ei_importance = 71 / 2, emotionalWeight = - 45\<rparr>"
  by (simp add: analyzeEmotionalImpact_def Let_def wordScore_def positiveWords_def
      negativeWords_def toLowerCase_def)

lemma adaptations_weights:
  "adaptations mems =
     (if length (filter (\<lambda>w. w > 30) (map emotional_weight mems))
         > length (filter (\<lambda>w. w < - 30) (map emotional_weight mems))
      then [(KExtraversion, Some 2), (KNeuroticism, Some (- 1))]
      else if length (filter (\<lambda>w. w < - 30) (map emotional_weight mems))
         > length (filter (\<lambda>w. w > 30) (map emotional_weight mems))
      then [(KNeuroticism, Some 1)]
      else [])"
  by (simp add: adaptations_def Let_def filter_map o_def)

lemma first_respond_memorySystem:
  "memorySystem
      (snd (respond firstEnv input ''user'' ''User'' (Soul_new 0 ''soul'' ''m0'' None))) =
   \<lparr>memories = map callEntry
     [(0, ''m0'', identityMemory defaultIdentity),
      (0, ''m1'',
       \<lparr>arg_content = ''User'' @ '' said: '' @ [CHR 0x22] @ input @ [CHR 0x22],
        arg_type = Episodic,
        arg_importance = ei_importance (analyzeEmotionalImpact input),
        arg_emotional_weight = emotionalWeight (analyzeEmotionalImpact input),
        arg_tags = [''conversation'', toLowerCase ''User'', ''input'']\<rparr>),
      (0, ''m2'',
       \<lparr>arg_content = ''I responded: '' @ [CHR 0x22]
           @ response (fst (respond firstEnv input ''user'' ''User''
                              (Soul_new 0 ''soul'' ''m0'' None))) @ [CHR 0x22],
        arg_type = Episodic, arg_importance = 40,
        arg_emotional_weight = emotionalWeight (analyzeEmotionalImpact input) * (1 / 2),
        arg_tags = [''conversation'', toLowerCase ''User'', ''response'']\<rparr>)],
    shortTermMemory = rev (map callMemory
     [(0, ''m0'', identityMemory defaultIdentity),
      (0, ''m1'',
       \<lparr>arg_content = ''User'' @ '' said: '' @ [CHR 0x22] @ input @ [CHR 0x22],
        arg_type = Episodic,
        arg_importance = ei_importance (analyzeEmotionalImpact input),
        arg_emotional_weight = emotionalWeight (analyzeEmotionalImpact input),
        arg_tags = [''conversation'', toLowerCase ''User'', ''input'']\<rparr>),
      (0, ''m2'',
       \<lparr>arg_content = ''I responded: '' @ [CHR 0x22]
           @ response (fst (respond firstEnv input ''user'' ''User''
                              (Soul_new 0 ''soul'' ''m0'' None))) @ [CHR 0x22],
        arg_type = Episodic, arg_importance = 40,
        arg_emotional_weight = emotionalWeight (analyzeEmotionalImpact input) * (1 / 2),
        arg_tags = [''conversation'', toLowerCase ''User'', ''response'']\<rparr>)]),
    longTermMemory = [], maxShortTermSize = 50, maxLongTermSize = 1000\<rparr>"
  (is "_ = \<lparr>memories = map callEntry ?calls, shortTermMemory = _, longTermMemory = _,
             maxShortTermSize = _, maxLongTermSize = _\<rparr>")
proof -
  have d: "distinct (map (fst \<circ> snd) ?calls)" by simp
  have "memorySystem (snd (respond firstEnv input ''user'' ''User'' (Soul_new 0 ''soul'' ''m0'' None)))
      = storeAll ?calls (MemorySystem_new 50 1000)"
    by (simp add: respond_memorySystem Soul_new_def Let_def firstEnv_def)
  also have "\<dots> = \<lparr>memories = map callEntry ?calls, shortTermMemory = rev (map callMemory ?calls),
      longTermMemory = [], maxShortTermSize = 50, maxLongTermSize = 1000\<rparr>"
    by (rule storeAll_within_capacity [OF d]) simp
  finally show ?thesis .
qed

lemma first_respond_recent_weights:
  "map emotional_weight (getRecentMemories 10 (memorySystem
      (snd (respond firstEnv input ''user'' ''User'' (Soul_new 0 ''soul'' ''m0'' None))))) =
   [0, emotionalWeight (analyzeEmotionalImpact input),
    emotionalWeight (analyzeEmotionalImpact input) * (1 / 2)]"
  by (simp add: getRecentMemories_def first_respond_memorySystem map_values_def sort_desc_def
      callEntry_def callMemory_def makeMemory_def identityMemory_def)

text \<open>
  What \<open>reflect\<close> does to the traits in general: with a positive majority among the recent
  memories extraversion moves toward 2 and neuroticism toward -1, with a negative majority
  neuroticism moves toward 1, each by the fraction \<open>adaptationRate / 100\<close> of the distance.
\<close>

lemma reflect_drift:
  assumes "reflect now uuid s = Some (r, s')"
  shows "length (filter (\<lambda>m. emotional_weight m > 30) (getRecentMemories 10 (memorySystem s)))
           > length (filter (\<lambda>m. emotional_weight m < - 30) (getRecentMemories 10 (memorySystem s)))
         \<Longrightarrow> extraversion (getBigFive (personalitySystem s')) =
               max 0 (min 100 (extraversion (getBigFive (personalitySystem s))
                 + (2 - extraversion (getBigFive (personalitySystem s)))
                     * (adaptationRate (personalitySystem s) / 100)))
             \<and> neuroticism (getBigFive (personalitySystem s')) =
               max 0 (min 100 (neuroticism (getBigFive (personalitySystem s))
                 + (- 1 - neuroticism (getBigFive (personalitySystem s)))
                     * (adaptationRate (personalitySystem s) / 100)))"
    and "length (filter (\<lambda>m. emotional_weight m < - 30) (getRecentMemories 10 (memorySystem s)))
           > length (filter (\<lambda>m. emotional_weight m > 30) (getRecentMemories 10 (memorySystem s)))
         \<Longrightarrow> neuroticism (getBigFive (personalitySystem s')) =
               max 0 (min 100 (neuroticism (getBigFive (personalitySystem s))
                 + (1 - neuroticism (getBigFive (personalitySystem s)))
                     * (adaptationRate (personalitySystem s) / 100)))"
  by (simp_all add: reflect_effect(1) [OF assms] adaptations_def Let_def updateBigFive_def
      getBigFive_def updateEntry_def)

text \<open>
  Claim C5 at the inputs that break it. After \<open>new Soul()\<close> and one \<open>respond\<close> to
  \<open>I love this\<close> the recent memories hold one of positive weight (45) and none of negative
  weight; \<open>reflect\<close> returns and passes \<open>{extraversion: 2, neuroticism: -1}\<close> to
  \<open>updateBigFive\<close>, which takes the numbers as targets: extraversion goes from 45 down to
  42.85. After one \<open>respond\<close> to \<open>I hate this\<close> the negative memories are the majority;
  \<open>reflect\<close> passes \<open>{neuroticism: 1}\<close> and neuroticism goes from 35 down to 33.3.
  In both states \<open>reflect\<close> does store its reflection as a semantic memory.
\<close>

theorem reflect_drift_lowers_the_traits:
  "extraversion (getBigFive (personalitySystem lovedSoul)) = 45
   \<and> (\<exists>r s'. reflect 1 ''m3'' lovedSoul = Some (r, s')
         \<and> personalityChanges r = [(KExtraversion, Some 2), (KNeuroticism, Some (- 1))]
         \<and> extraversion (getBigFive (personalitySystem s')) = 857 / 20
         \<and> mem_type (snd (last (memories (memorySystem s')))) = Semantic)
   \<and> neuroticism (getBigFive (personalitySystem hatedSoul)) = 35
   \<and> (\<exists>r s'. reflect 1 ''m3'' hatedSoul = Some (r, s')
         \<and> personalityChanges r = [(KNeuroticism, Some 1)]
         \<and> neuroticism (getBigFive (personalitySystem s')) = 333 / 10
         \<and> mem_type (snd (last (memories (memorySystem s')))) = Semantic)"
proof -
  have ps: "personalitySystem lovedSoul = PersonalitySystem_new emptyPersonalityConfig 5"
    "personalitySystem hatedSoul = PersonalitySystem_new emptyPersonalityConfig 5"
    by (simp_all add: lovedSoul_def hatedSoul_def Soul_new_def Let_def)
  have al: "adaptations (getRecentMemories 10 (memorySystem lovedSoul))
      = [(KExtraversion, Some 2), (KNeuroticism, Some (- 1))]"
    by (simp add: adaptations_weights lovedSoul_def first_respond_recent_weights analyze_love)
  have ah: "adaptations (getRecentMemories 10 (memorySystem hatedSoul)) = [(KNeuroticism, Some 1)]"
    by (simp add: adaptations_weights hatedSoul_def first_respond_recent_weights analyze_hate)
  obtain r1 s1 where r1: "reflect 1 ''m3'' lovedSoul = Some (r1, s1)"
    using reflect_Some by blast
  obtain r2 s2 where r2: "reflect 1 ''m3'' hatedSoul = Some (r2, s2)"
    using reflect_Some by blast
  have e1: "extraversion (getBigFive (personalitySystem s1)) = 857 / 20"
    by (simp add: reflect_effect(1) [OF r1] al ps updateBigFive_def getBigFive_def
        PersonalitySystem_new_def emptyPersonalityConfig_def getDefaultBigFive_def
        updateEntry_def)
  have e2: "neuroticism (getBigFive (personalitySystem s2)) = 333 / 10"
    by (simp add: reflect_effect(1) [OF r2] ah ps updateBigFive_def getBigFive_def
        PersonalitySystem_new_def emptyPersonalityConfig_def getDefaultBigFive_def
        updateEntry_def)
  have b: "extraversion (getBigFive (personalitySystem lovedSoul)) = 45"
    "neuroticism (getBigFive (personalitySystem hatedSoul)) = 35"
    by (simp_all add: ps getBigFive_def PersonalitySystem_new_def emptyPersonalityConfig_def
        getDefaultBigFive_def)
  have m1: "mem_type (snd (last (memories (memorySystem s1)))) = Semantic"
    by (simp add: reflect_effect(3) [OF r1] lovedSoul_def first_respond_memorySystem store_def
        Let_def consolidateMemories_def consolidateShort_def consolidateLong_def
        callEntry_def makeMemory_def)
  have m2: "mem_type (snd (last (memories (memorySystem s2)))) = Semantic"
    by (simp add: reflect_effect(3) [OF r2] hatedSoul_def first_respond_memorySystem store_def
        Let_def consolidateMemories_def consolidateShort_def consolidateLong_def
        callEntry_def makeMemory_def)
  from r1 r2 e1 e2 b m1 m2 reflect_effect(2) [OF r1] reflect_effect(2) [OF r2] al ah
  show ?thesis by simp
qed

section \<open>The fluent mood setter\<close>

lemma generateInternalMonologue_emotionalState:
  "emotionalState (snd (generateInternalMonologue now uuid choice me)) = emotionalState me"
  by (simp add: generateInternalMonologue_def Let_def split_beta)

lemma generateThoughts_emotionalState:
  "emotionalState (moodEngine (snd (generateThoughts env input ctx s)))
     = emotionalState (moodEngine s)"
  by (auto simp add: generateThoughts_def Let_def split_beta
      generateInternalMonologue_emotionalState split: option.split prod.split)

lemma respond_emotionalState:
  "emotionalState (moodEngine (snd (respond env input pid pname s))) =
     emotionalState
       (snd (updateMood (env_now env) (uuid_moodThought env)
               \<lparr>stim_type = ei_type (analyzeEmotionalImpact input),
                intensity = ei_intensity (analyzeEmotionalImpact input),
                stim_context = Some (''conversation with '' @ pname)\<rparr>
               (moodEngine s)))"
  by (simp add: respond_def Let_def split_beta generateThoughts_emotionalState)

text \<open>
  After \<open>respond('I hate this')\<close> a new Soul is away from the baseline 70, 20, 60: the
  negative stimulus of intensity 45 has taken energy to 61, stress to 38 and confidence
  to 53.25.
\<close>

lemma hatedSoul_emotionalState:
  "emotionalState (moodEngine hatedSoul)
     = \<lparr>mood = Curious, energy = 61, stress = 38, confidence = 213 / 4, socialBattery = 80\<rparr>"
proof -
  have fresh: "emotionalState (moodEngine (Soul_new 0 ''soul'' ''m0'' None)) =
      \<lparr>mood = Neutral, energy = 70, stress = 20, confidence = 60, socialBattery = 80\<rparr>"
    by (simp add: Soul_new_def Let_def MoodEngine_new_def)
  show ?thesis
    by (simp add: hatedSoul_def respond_emotionalState updateMood_emotionalState analyze_hate
        fresh adjustState_def calculateMoodFromState_def)
qed

text \<open>
  Claim C9. \<open>withMood(m)\<close> does not read \<open>m\<close>: called in the same state (with the same
  clock value and uuid drawn) it gives the same Soul for any two moods. What it does is one
  neutral stimulus of intensity 0: energy moves by at most 5 toward 70, stress by at most 5
  toward 20 and confidence by at most 3 toward 60, none of them past its baseline, the social
  battery stays, and the mood becomes the classification of the new scalars, never the mood
  requested. On a new Soul, which is at the baseline, \<open>withMood('joyful')\<close> and
  \<open>withMood('melancholic')\<close> both leave the mood curious; on the Soul that has responded
  to \<open>I hate this\<close>, \<open>withMood('joyful')\<close> takes energy from 61 to 66, stress from 38
  to 33 and confidence from 53.25 to 56.25, and the mood stays curious.
\<close>

theorem withMood_ignores_its_argument:
  "withMood now uuid m1 s = withMood now uuid m2 s
   \<and> energy (emotionalState (moodEngine (withMood now uuid m s)))
       = (if energy (emotionalState (moodEngine s)) < 70
          then min 70 (energy (emotionalState (moodEngine s)) + 5)
          else if energy (emotionalState (moodEngine s)) > 70
          then max 70 (energy (emotionalState (moodEngine s)) - 5)
          else energy (emotionalState (moodEngine s)))
   \<and> stress (emotionalState (moodEngine (withMood now uuid m s)))
       = (if stress (emotionalState (moodEngine s)) < 20
          then min 20 (stress (emotionalState (moodEngine s)) + 5)
          else if stress (emotionalState (moodEngine s)) > 20
          then max 20 (stress (emotionalState (moodEngine s)) - 5)
          else stress (emotionalState (moodEngine s)))
   \<and> confidence (emotionalState (moodEngine (withMood now uuid m s)))
       = (if confidence (emotionalState (moodEngine s)) < 60
          then min 60 (confidence (emotionalState (moodEngine s)) + 3)
          else if confidence (emotionalState (moodEngine s)) > 60
          then max 60 (confidence (emotionalState (moodEngine s)) - 3)
          else confidence (emotionalState (moodEngine s)))
   \<and> socialBattery (emotionalState (moodEngine (withMood now uuid m s)))
       = socialBattery (emotionalState (moodEngine s))
   \<and> mood (emotionalState (moodEngine (withMood now uuid m s)))
       = spec_mood (energy (emotionalState (moodEngine (withMood now uuid m s))))
           (stress (emotionalState (moodEngine (withMood now uuid m s))))
           (confidence (emotionalState (moodEngine (withMood now uuid m s))))
           (socialBattery (emotionalState (moodEngine s)))
   \<and> mood (emotionalState (moodEngine (withMood 0 ''t'' Joyful (Soul_new 0 ''s'' ''i'' None))))
       = Curious
   \<and> mood (emotionalState (moodEngine (withMood 0 ''t'' Melancholic (Soul_new 0 ''s'' ''i'' None))))
       = Curious
   \<and> emotionalState (moodEngine hatedSoul)
       = \<lparr>mood = Curious, energy = 61, stress = 38, confidence = 213 / 4, socialBattery = 80\<rparr>
   \<and> emotionalState (moodEngine (withMood 1 ''t'' Joyful hatedSoul))
       = \<lparr>mood = Curious, energy = 66, stress = 33, confidence = 225 / 4, socialBattery = 80\<rparr>"
proof -
  have es: "emotionalState (moodEngine (withMood now uuid m s)) =
     (adjustState \<lparr>stim_type = NeutralStimulus, intensity = 0,
                   stim_context = Some ''initial mood setting''\<rparr> (emotionalState (moodEngine s)))
       \<lparr>mood := calculateMoodFromState
                  ((moodEngine s)\<lparr>emotionalState :=
                     adjustState \<lparr>stim_type = NeutralStimulus, intensity = 0,
                                  stim_context = Some ''initial mood setting''\<rparr>
                       (emotionalState (moodEngine s))\<rparr>)\<rparr>" for now uuid m s
    by (simp add: withMood_def updateMood_emotionalState)
  have fresh: "emotionalState (moodEngine (Soul_new 0 ''s'' ''i'' None)) =
      \<lparr>mood = Neutral, energy = 70, stress = 20, confidence = 60, socialBattery = 80\<rparr>"
    by (simp add: Soul_new_def Let_def MoodEngine_new_def)
  have c: "spec_mood 70 20 60 80 = Curious"
    by (simp add: spec_mood_def spec_mood_rules_def)
  have same: "withMood now uuid m1 s = withMood now uuid m2 s"
    by (simp add: withMood_def)
  have e: "energy (emotionalState (moodEngine (withMood now uuid m s)))
       = (if energy (emotionalState (moodEngine s)) < 70
          then min 70 (energy (emotionalState (moodEngine s)) + 5)
          else if energy (emotionalState (moodEngine s)) > 70
          then max 70 (energy (emotionalState (moodEngine s)) - 5)
          else energy (emotionalState (moodEngine s)))"
    by (simp add: es adjustState_def moveToward_def)
  have st: "stress (emotionalState (moodEngine (withMood now uuid m s)))
       = (if stress (emotionalState (moodEngine s)) < 20
          then min 20 (stress (emotionalState (moodEngine s)) + 5)
          else if stress (emotionalState (moodEngine s)) > 20
          then max 20 (stress (emotionalState (moodEngine s)) - 5)
          else stress (emotionalState (moodEngine s)))"
    by (simp add: es adjustState_def moveToward_def)
  have cf: "confidence (emotionalState (moodEngine (withMood now uuid m s)))
       = (if confidence (emotionalState (moodEngine s)) < 60
          then min 60 (confidence (emotionalState (moodEngine s)) + 3)
          else if confidence (emotionalState (moodEngine s)) > 60
          then max 60 (confidence (emotionalState (moodEngine s)) - 3)
          else confidence (emotionalState (moodEngine s)))"
    by (simp add: es adjustState_def moveToward_def)
  have sb: "socialBattery (emotionalState (moodEngine (withMood now uuid m s)))
       = socialBattery (emotionalState (moodEngine s))"
    by (simp add: es adjustState_def)
  have md: "mood (emotionalState (moodEngine (withMood now uuid m s)))
       = spec_mood (energy (emotionalState (moodEngine (withMood now uuid m s))))
           (stress (emotionalState (moodEngine (withMood now uuid m s))))
           (confidence (emotionalState (moodEngine (withMood now uuid m s))))
           (socialBattery (emotionalState (moodEngine s)))"
    by (simp add: es calculateMoodFromState_table adjustState_def)
  have new: "mood (emotionalState (moodEngine (withMood 0 ''t'' mm (Soul_new 0 ''s'' ''i'' None))))
       = Curious" for mm
    by (simp add: es calculateMoodFromState_table adjustState_def fresh c moveToward_def)
  have hated: "emotionalState (moodEngine (withMood 1 ''t'' Joyful hatedSoul))
       = \<lparr>mood = Curious, energy = 66, stress = 33, confidence = 225 / 4, socialBattery = 80\<rparr>"
    by (simp add: es hatedSoul_emotionalState adjustState_def moveToward_def
        calculateMoodFromState_def)
  from same e st cf sb md new [of Joyful] new [of Melancholic] hatedSoul_emotionalState hated
  show ?thesis by (intro conjI)
qed

section \<open>Export and import\<close>

lemma set_map_set_keys: "fst ` set (map_set k v m) = insert k (fst ` set m)"
  by (induction m) auto

lemma map_set_keyed:
  "keyed_by f m \<Longrightarrow> f v = k \<Longrightarrow> keyed_by f (map_set k v m)"
proof (induction m)
  case Nil
  then show ?case by (simp add: keyed_by_def)
next
  case (Cons p m)
  then have "keyed_by f m" by (simp add: keyed_by_def)
  with Cons have IH: "keyed_by f (map_set k v m)" by simp
  show ?case
  proof (cases "fst p = k")
    case True
    with Cons.prems show ?thesis by (simp add: keyed_by_def)
  next
    case False
    with Cons.prems IH show ?thesis
      by (simp add: keyed_by_def set_map_set_keys)
  qed
qed

lemma keyed_by_filter: "keyed_by f m \<Longrightarrow> keyed_by f (filter P m)"
  by (simp add: keyed_by_def distinct_map_filter list_all_iff)

lemma map_set_same:
  "distinct (map fst m) \<Longrightarrow> (k, v) \<in> set m \<Longrightarrow> map_set k v m = m"
proof (induction m)
  case Nil
  then show ?case by simp
next
  case (Cons p m)
  show ?case
  proof (cases "fst p = k")
    case True
    with Cons.prems have "p = (k, v)"
      by (cases p) (auto simp: image_iff)
    with True show ?thesis by simp
  next
    case False
    with Cons show ?thesis by auto
  qed
qed

lemma fold_map_set_same:
  "keyed_by f m \<Longrightarrow> set xs \<subseteq> snd ` set m \<Longrightarrow> fold (\<lambda>c. map_set (f c) c) xs m = m"
proof (induction xs)
  case Nil
  then show ?case by simp
next
  case (Cons x xs)
  from Cons.prems obtain p where p: "p \<in> set m" "snd p = x" by auto
  with Cons.prems(1) have "f x = fst p"
    by (auto simp: keyed_by_def list_all_iff)
  with p have "(f x, x) \<in> set m" by (metis prod.collapse)
  with Cons.prems(1) have "map_set (f x) x m = m"
    by (intro map_set_same) (simp_all add: keyed_by_def)
  with Cons show ?case by simp
qed

lemma fold_importOne:
  "fold importOne mems ms =
     ms\<lparr>memories := fold (\<lambda>m. map_set (mem_id m) m) mems (memories ms),
        shortTermMemory := shortTermMemory ms @ filter (\<lambda>m. \<not> importance m \<ge> 60) mems,
        longTermMemory := longTermMemory ms @ filter (\<lambda>m. importance m \<ge> 60) mems\<rparr>"
proof (induction mems arbitrary: ms)
  case Nil
  then show ?case by simp
next
  case (Cons x xs)
  have step: "importOne x ms =
      ms\<lparr>memories := map_set (mem_id x) x (memories ms),
         shortTermMemory := shortTermMemory ms @ (if importance x \<ge> 60 then [] else [x]),
         longTermMemory := longTermMemory ms @ (if importance x \<ge> 60 then [x] else [])\<rparr>"
    by (simp add: importOne_def Let_def)
  have "fold importOne (x # xs) ms = fold importOne xs (importOne x ms)"
    by simp
  also note Cons [of "importOne x ms"]
  finally show ?case
    by (simp add: step)
qed

lemma fold_map_set_keyed:
  "keyed_by f m \<Longrightarrow> keyed_by f (fold (\<lambda>c. map_set (f c) c) xs m)"
  by (induction xs arbitrary: m) (simp_all add: map_set_keyed)

lemma consolidateMemories_memories:
  "\<exists>P. memories (consolidateMemories ms) = filter P (memories ms)"
proof -
  define Q where "Q = (\<lambda>p::string \<times> Memory. fst p \<notin> mem_id ` set (drop (maxLongTermSize (consolidateShort ms))
                      (longTermMemory (consolidateShort ms))))"
  define R where "R = (\<lambda>p::string \<times> Memory. fst p \<notin> mem_id ` set (filter (\<lambda>m. \<not> importance m \<ge> 60)
                                  (drop (maxShortTermSize ms) (shortTermMemory ms))))"
  have "memories (consolidateMemories ms) = filter Q (memories (consolidateShort ms))"
    unfolding Q_def
    by (simp add: consolidateMemories_def consolidateLong_eq [of "consolidateShort ms"])
  also have "memories (consolidateShort ms) = filter R (memories ms)"
    unfolding R_def by (simp add: consolidateShort_eq)
  also have "filter Q (filter R (memories ms)) = filter (\<lambda>x. R x \<and> Q x) (memories ms)"
    by (rule filter_filter)
  finally show ?thesis by blast
qed

lemma consolidateMemories_fits:
  "length (shortTermMemory ms) \<le> maxShortTermSize ms \<Longrightarrow>
   length (longTermMemory ms) \<le> maxLongTermSize ms \<Longrightarrow> consolidateMemories ms = ms"
  by (simp add: consolidateMemories_def consolidateShort_def consolidateLong_def)

lemma store_keyed:
  "keyed_by mem_id (memories ms) \<Longrightarrow> keyed_by mem_id (memories (snd (store now uuid a ms)))"
proof -
  assume k: "keyed_by mem_id (memories ms)"
  let ?ms = "ms\<lparr>memories := map_set uuid (makeMemory now uuid a) (memories ms),
                shortTermMemory := makeMemory now uuid a # shortTermMemory ms\<rparr>"
  obtain P where "memories (consolidateMemories ?ms) = filter P (memories ?ms)"
    using consolidateMemories_memories by blast
  moreover have "keyed_by mem_id (memories ?ms)"
    using k by (simp add: map_set_keyed makeMemory_def)
  ultimately show ?thesis
    by (simp add: store_def Let_def keyed_by_filter makeMemory_def)
qed

lemma import_memories_keyed:
  "keyed_by mem_id (memories ms) \<Longrightarrow> keyed_by mem_id (memories (import_memories mems ms))"
proof -
  assume k: "keyed_by mem_id (memories ms)"
  obtain P where "memories (consolidateMemories (fold importOne mems ms))
      = filter P (memories (fold importOne mems ms))"
    using consolidateMemories_memories by blast
  moreover have "keyed_by mem_id (memories (fold importOne mems ms))"
    using k by (simp add: fold_importOne fold_map_set_keyed)
  ultimately show ?thesis
    by (simp add: import_memories_def keyed_by_filter)
qed

lemma import_export_memories:
  assumes k: "keyed_by mem_id (memories ms)"
  shows "import_memories (export_memories ms) ms =
     consolidateMemories
       (ms\<lparr>shortTermMemory :=
             shortTermMemory ms @ filter (\<lambda>m. \<not> importance m \<ge> 60) (export_memories ms),
           longTermMemory :=
             longTermMemory ms @ filter (\<lambda>m. importance m \<ge> 60) (export_memories ms)\<rparr>)"
proof -
  have "fold (\<lambda>m. map_set (mem_id m) m) (export_memories ms) (memories ms) = memories ms"
    using k by (intro fold_map_set_same) (simp_all add: export_memories_def map_values_def)
  then show ?thesis
    by (simp add: import_memories_def fold_importOne)
qed

lemma getOrCreateContext_keyed:
  assumes "keyed_by participantId (conversationContexts s)"
  shows "keyed_by participantId (conversationContexts (snd (getOrCreateContext pid pname s)))"
    and "participantId (fst (getOrCreateContext pid pname s)) = pid"
proof -
  show "keyed_by participantId (conversationContexts (snd (getOrCreateContext pid pname s)))"
    using assms
    by (simp add: getOrCreateContext_def Let_def map_set_keyed split: option.split)
  show "participantId (fst (getOrCreateContext pid pname s)) = pid"
  proof (cases "map_of (conversationContexts s) pid")
    case None
    then show ?thesis by (simp add: getOrCreateContext_def Let_def)
  next
    case (Some c)
    then have "(pid, c) \<in> set (conversationContexts s)" by (rule map_of_SomeD)
    with assms have "participantId c = pid"
      by (auto simp: keyed_by_def list_all_iff)
    with Some show ?thesis by (simp add: getOrCreateContext_def)
  qed
qed

lemma respond_contexts_keyed:
  assumes "keyed_by participantId (conversationContexts s)"
  shows "keyed_by participantId (conversationContexts (snd (respond env input pid pname s)))"
  using getOrCreateContext_keyed [OF assms, of pid pname]
  by (simp add: respond_def Let_def split_beta map_set_keyed)

lemma respond_inv: "soul_inv s \<Longrightarrow> soul_inv (snd (respond env input pid pname s))"
  by (simp add: soul_inv_def respond_contexts_keyed respond_memorySystem store_keyed)

lemma Soul_new_inv: "soul_inv (Soul_new now uuid memUuid cfg)"
proof -
  have "keyed_by mem_id (memories (MemorySystem_new a b))" for a b
    by (simp add: MemorySystem_new_def keyed_by_def)
  then show ?thesis
    by (simp add: soul_inv_def Soul_new_def Let_def store_keyed) (simp add: keyed_by_def)
qed

lemma import_inv: "soul_inv s \<Longrightarrow> soul_inv (import d s)"
  by (simp add: soul_inv_def import_def import_memories_keyed fold_map_set_keyed)

lemma reachable_inv: "reachable s \<Longrightarrow> soul_inv s"
proof (induction rule: reachable.induct)
  case (reach_new now uuid memUuid cfg)
  show ?case by (rule Soul_new_inv)
next
  case (reach_withIdentity s now uuid p)
  then show ?case by (simp add: soul_inv_def withIdentity_def Let_def store_keyed)
next
  case (reach_withMemory s k)
  then show ?case by (simp add: withMemory_def)
next
  case (reach_withMood s now uuid m)
  then show ?case by (simp add: soul_inv_def withMood_def)
next
  case (reach_withPersonality s personality)
  then show ?case by (simp add: soul_inv_def withPersonality_def)
next
  case (reach_withEmpathy s level)
  then show ?case by (simp add: soul_inv_def withEmpathy_def)
next
  case (reach_respond s env input pid pname)
  then show ?case by (simp add: respond_inv)
next
  case (reach_reflect s now uuid r s')
  then show ?case
    by (simp add: soul_inv_def reflect_effect(3,4) [OF reach_reflect.hyps(2)] store_keyed)
next
  case (reach_simulateTimePassage s now uuid rnd choice minutes)
  then show ?case by (simp add: soul_inv_def simulateTimePassage_def Let_def)
next
  case (reach_import s d)
  then show ?case by (simp add: import_inv)
qed

lemma consolidateLong_fields:
  "shortTermMemory (consolidateLong ms) = shortTermMemory ms"
  "maxShortTermSize (consolidateLong ms) = maxShortTermSize ms"
  "maxLongTermSize (consolidateLong ms) = maxLongTermSize ms"
  "length (longTermMemory (consolidateLong ms)) \<le> maxLongTermSize ms"
  by (simp_all add: consolidateLong_eq)

lemma consolidateShort_fields:
  "length (shortTermMemory (consolidateShort ms)) \<le> maxShortTermSize ms"
  "maxShortTermSize (consolidateShort ms) = maxShortTermSize ms"
  "maxLongTermSize (consolidateShort ms) = maxLongTermSize ms"
  by (simp_all add: consolidateShort_eq)

lemma consolidateMemories_within: "within_capacity (consolidateMemories ms)"
proof -
  have "length (longTermMemory (consolidateLong (consolidateShort ms)))
      \<le> maxLongTermSize (consolidateShort ms)"
    by (rule consolidateLong_fields(4))
  then have "length (longTermMemory (consolidateLong (consolidateShort ms))) \<le> maxLongTermSize ms"
    by (simp only: consolidateShort_fields(3))
  then show ?thesis
    by (simp add: within_capacity_def consolidateMemories_def consolidateLong_fields(1-3)
        consolidateShort_fields)
qed

lemma store_within: "within_capacity (snd (store now uuid a ms))"
  by (simp add: store_def Let_def consolidateMemories_within)

lemma import_within: "within_capacity (import_memories mems ms)"
  by (simp add: import_memories_def consolidateMemories_within)

lemma consolidateLong_length: "length (memories (consolidateLong ms)) \<le> length (memories ms)"
  by (simp add: consolidateLong_eq)

lemma consolidateMemories_length:
  "length (memories (consolidateMemories ms)) \<le> length (memories (consolidateShort ms))"
  by (simp add: consolidateMemories_def consolidateLong_length)

lemma keyed_entry:
  assumes "keyed_by mem_id m" and "y \<in> set (map snd m)"
  shows "(mem_id y, y) \<in> set m"
proof -
  from assms(2) obtain p where p: "p \<in> set m" "snd p = y" by auto
  with assms(1) have "mem_id y = fst p" by (auto simp: keyed_by_def list_all_iff)
  with p show ?thesis by (metis prod.collapse)
qed

lemma short_overflow_loses:
  assumes k: "keyed_by mem_id (memories ms)"
    and over: "maxShortTermSize ms < length (shortTermMemory ms) + length (filter (\<lambda>m. \<not> importance m \<ge> 60) (map snd (memories ms)))"
    and cap: "length (shortTermMemory ms) \<le> maxShortTermSize ms"
  shows "length (memories (consolidateMemories
           (ms\<lparr>shortTermMemory := shortTermMemory ms @ filter (\<lambda>m. \<not> importance m \<ge> 60) (map snd (memories ms)),
               longTermMemory := longTermMemory ms @ hs\<rparr>)))
         < length (memories ms)"
proof -
  define lows where "lows = filter (\<lambda>m. \<not> importance m \<ge> 60) (map snd (memories ms))"
  define ms' where "ms' = ms\<lparr>shortTermMemory := shortTermMemory ms @ lows,
               longTermMemory := longTermMemory ms @ hs\<rparr>"
  define dropped where "dropped = drop (maxShortTermSize ms) (shortTermMemory ms @ lows)"
  from cap have d: "dropped = drop (maxShortTermSize ms - length (shortTermMemory ms)) lows"
    by (simp add: dropped_def)
  from over have "maxShortTermSize ms - length (shortTermMemory ms) < length lows"
    using cap by (simp add: lows_def)
  then have "dropped \<noteq> []"
    by (simp add: d)
  then obtain y where y: "y \<in> set dropped" by (cases dropped) auto
  then have "y \<in> set lows" unfolding d by (rule in_set_dropD)
  then have ylow: "\<not> importance y \<ge> 60" and "y \<in> set (map snd (memories ms))"
    by (simp_all add: lows_def)
  with k have ent: "(mem_id y, y) \<in> set (memories ms)"
    by (intro keyed_entry)
  have "memories (consolidateShort ms') =
      filter (\<lambda>p. fst p \<notin> mem_id ` set (filter (\<lambda>m. \<not> importance m \<ge> 60) dropped)) (memories ms)"
    by (simp add: consolidateShort_eq ms'_def dropped_def)
  moreover have "\<not> (fst (mem_id y, y) \<notin> mem_id ` set (filter (\<lambda>m. \<not> importance m \<ge> 60) dropped))"
    using y ylow by auto
  with ent have "length (filter (\<lambda>p. fst p \<notin> mem_id ` set (filter (\<lambda>m. \<not> importance m \<ge> 60) dropped)) (memories ms))
      < length (memories ms)"
    by (rule length_filter_less)
  ultimately have "length (memories (consolidateShort ms')) < length (memories ms)"
    by (simp only:)
  with consolidateMemories_length [of ms'] show ?thesis
    by (simp add: ms'_def lows_def)
qed

lemma long_overflow_loses:
  assumes k: "keyed_by mem_id (memories ms)"
    and fit: "length (shortTermMemory ms) + length (filter (\<lambda>m. \<not> importance m \<ge> 60) (map snd (memories ms))) \<le> maxShortTermSize ms"
    and over: "maxLongTermSize ms < length (longTermMemory ms) + length (filter (\<lambda>m. importance m \<ge> 60) (map snd (memories ms)))"
    and cap: "length (longTermMemory ms) \<le> maxLongTermSize ms"
  shows "length (memories (consolidateMemories
           (ms\<lparr>shortTermMemory := shortTermMemory ms @ filter (\<lambda>m. \<not> importance m \<ge> 60) (map snd (memories ms)),
               longTermMemory := longTermMemory ms @ filter (\<lambda>m. importance m \<ge> 60) (map snd (memories ms))\<rparr>)))
         < length (memories ms)"
proof -
  define lows where "lows = filter (\<lambda>m. \<not> importance m \<ge> 60) (map snd (memories ms))"
  define highs where "highs = filter (\<lambda>m. importance m \<ge> 60) (map snd (memories ms))"
  define ms' where "ms' = ms\<lparr>shortTermMemory := shortTermMemory ms @ lows,
               longTermMemory := longTermMemory ms @ highs\<rparr>"
  define dropped where "dropped = drop (maxLongTermSize ms) (longTermMemory ms @ highs)"
  from fit have cs: "consolidateShort ms' = ms'"
    by (simp add: consolidateShort_def ms'_def lows_def)
  from cap have d: "dropped = drop (maxLongTermSize ms - length (longTermMemory ms)) highs"
    by (simp add: dropped_def)
  from over have "maxLongTermSize ms - length (longTermMemory ms) < length highs"
    using cap by (simp add: highs_def)
  then have "dropped \<noteq> []"
    by (simp add: d)
  then obtain y where y: "y \<in> set dropped" by (cases dropped) auto
  then have "y \<in> set highs" unfolding d by (rule in_set_dropD)
  then have "y \<in> set (map snd (memories ms))"
    by (simp add: highs_def)
  with k have ent: "(mem_id y, y) \<in> set (memories ms)"
    by (intro keyed_entry)
  have "memories (consolidateMemories ms') =
      filter (\<lambda>p. fst p \<notin> mem_id ` set dropped) (memories ms)"
    by (simp add: consolidateMemories_def cs consolidateLong_eq [of ms'])
      (simp add: ms'_def dropped_def)
  moreover have "\<not> (fst (mem_id y, y) \<notin> mem_id ` set dropped)"
    using y by auto
  with ent have "length (filter (\<lambda>p. fst p \<notin> mem_id ` set dropped) (memories ms))
      < length (memories ms)"
    by (rule length_filter_less)
  ultimately have "length (memories (consolidateMemories ms')) < length (memories ms)"
    by (simp only:)
  then show ?thesis
    by (simp add: ms'_def lows_def highs_def)
qed

lemma reachable_within: "reachable s \<Longrightarrow> within_capacity (memorySystem s)"
proof (induction rule: reachable.induct)
  case (reach_new now uuid memUuid cfg)
  show ?case by (simp add: Soul_new_def Let_def store_within)
next
  case (reach_withIdentity s now uuid p)
  then show ?case by (simp add: withIdentity_def Let_def store_within)
next
  case (reach_withMemory s k)
  then show ?case by (simp add: withMemory_def)
next
  case (reach_withMood s now uuid m)
  then show ?case by (simp add: withMood_def)
next
  case (reach_withPersonality s personality)
  then show ?case by (simp add: withPersonality_def)
next
  case (reach_withEmpathy s level)
  then show ?case by (simp add: withEmpathy_def)
next
  case (reach_respond s env input pid pname)
  show ?case by (simp only: respond_memorySystem store_within)
next
  case (reach_reflect s now uuid r s')
  show ?case
    by (simp only: reflect_effect(3) [OF reach_reflect.hyps(2)] store_within)
next
  case (reach_simulateTimePassage s now uuid rnd choice minutes)
  then show ?case by (simp add: simulateTimePassage_def Let_def)
next
  case (reach_import s d)
  show ?case by (simp add: import_def import_within)
qed

lemma import_export_overflow:
  assumes r: "reachable s"
    and over: "\<not> (length (shortTermMemory (memorySystem s))
              + length (filter (\<lambda>m. importance m < 60) (export_memories (memorySystem s)))
              \<le> maxShortTermSize (memorySystem s)
          \<and> length (longTermMemory (memorySystem s))
              + length (filter (\<lambda>m. importance m \<ge> 60) (export_memories (memorySystem s)))
              \<le> maxLongTermSize (memorySystem s))"
  shows "length (memories (memorySystem (import (export s) s)))
         < length (memories (memorySystem s))"
proof -
  let ?ms = "memorySystem s"
  from r have "soul_inv s" by (rule reachable_inv)
  then have km: "keyed_by mem_id (memories ?ms)"
    by (simp add: soul_inv_def)
  from r have "within_capacity ?ms" by (rule reachable_within)
  then have cs: "length (shortTermMemory ?ms) \<le> maxShortTermSize ?ms"
    and cl: "length (longTermMemory ?ms) \<le> maxLongTermSize ?ms"
    by (simp_all add: within_capacity_def)
  have lt: "(\<lambda>m. importance m < 60) = (\<lambda>m. \<not> importance m \<ge> 60)"
    by (simp add: not_le)
  have ms: "memorySystem (import (export s) s) =
      consolidateMemories
       (?ms\<lparr>shortTermMemory :=
             shortTermMemory ?ms @ filter (\<lambda>m. \<not> importance m \<ge> 60) (map snd (memories ?ms)),
           longTermMemory :=
             longTermMemory ?ms @ filter (\<lambda>m. importance m \<ge> 60) (map snd (memories ?ms))\<rparr>)"
    using import_export_memories [OF km]
    by (simp add: import_def export_def export_memories_def map_values_def)
  show ?thesis
  proof (cases "length (shortTermMemory ?ms)
              + length (filter (\<lambda>m. \<not> importance m \<ge> 60) (map snd (memories ?ms)))
              \<le> maxShortTermSize ?ms")
    case True
    with over have "maxLongTermSize ?ms < length (longTermMemory ?ms)
        + length (filter (\<lambda>m. importance m \<ge> 60) (map snd (memories ?ms)))"
      by (simp add: lt export_memories_def map_values_def)
    with km True show ?thesis
      unfolding ms using cl by (intro long_overflow_loses)
  next
    case False
    then have "maxShortTermSize ?ms < length (shortTermMemory ?ms)
        + length (filter (\<lambda>m. \<not> importance m \<ge> 60) (map snd (memories ?ms)))"
      by simp
    with km show ?thesis
      unfolding ms using cs by (intro short_overflow_loses)
  qed
qed

lemma import_export_contexts:
  assumes "keyed_by participantId (conversationContexts s)"
  shows "conversationContexts (import (export s) s) = conversationContexts s"
proof -
  have "fold (\<lambda>c. map_set (participantId c) c) (map_values (conversationContexts s))
          (conversationContexts s) = conversationContexts s"
    using assms by (intro fold_map_set_same) (simp_all add: map_values_def)
  then show ?thesis
    by (simp add: import_def export_def)
qed

text \<open>
  What \<open>import(export())\<close> does on the Soul that was exported, in every reachable state.
  The Big-Five trait vector and the conversation contexts keyed by participant id are
  reproduced. Every exported record is pushed once more onto the long-term list (importance
  at least 60) or the short-term list (otherwise), although the lists hold it already, and
  the consolidation runs on the lengthened lists: the primary index never gains a record and
  is a filtering of the old one; it is the same index when the lengthened lists still fit
  their capacities, and it loses at least one record when they do not.
\<close>

lemma import_export_same_soul:
  assumes "reachable s"
  shows "getBigFive (personalitySystem (import (export s) s)) = getBigFive (personalitySystem s)
     \<and> conversationContexts (import (export s) s) = conversationContexts s
     \<and> (\<exists>P. memories (memorySystem (import (export s) s))
               = filter P (memories (memorySystem s)))
     \<and> length (memories (memorySystem (import (export s) s)))
         \<le> length (memories (memorySystem s))
     \<and> (length (shortTermMemory (memorySystem s))
              + length (filter (\<lambda>m. importance m < 60) (export_memories (memorySystem s)))
              \<le> maxShortTermSize (memorySystem s)
          \<and> length (longTermMemory (memorySystem s))
              + length (filter (\<lambda>m. importance m \<ge> 60) (export_memories (memorySystem s)))
              \<le> maxLongTermSize (memorySystem s)
         \<longrightarrow> memories (memorySystem (import (export s) s)) = memories (memorySystem s))
     \<and> (\<not> (length (shortTermMemory (memorySystem s))
              + length (filter (\<lambda>m. importance m < 60) (export_memories (memorySystem s)))
              \<le> maxShortTermSize (memorySystem s)
          \<and> length (longTermMemory (memorySystem s))
              + length (filter (\<lambda>m. importance m \<ge> 60) (export_memories (memorySystem s)))
              \<le> maxLongTermSize (memorySystem s))
         \<longrightarrow> length (memories (memorySystem (import (export s) s)))
              < length (memories (memorySystem s)))"
proof -
  from assms have inv: "soul_inv s" by (rule reachable_inv)
  then have kc: "keyed_by participantId (conversationContexts s)"
    and km: "keyed_by mem_id (memories (memorySystem s))"
    by (simp_all add: soul_inv_def)
  let ?ms = "memorySystem s"
  let ?ms' = "?ms\<lparr>shortTermMemory :=
             shortTermMemory ?ms @ filter (\<lambda>m. \<not> importance m \<ge> 60) (export_memories ?ms),
           longTermMemory :=
             longTermMemory ?ms @ filter (\<lambda>m. importance m \<ge> 60) (export_memories ?ms)\<rparr>"
  have ms: "memorySystem (import (export s) s) = consolidateMemories ?ms'"
    using import_export_memories [OF km] by (simp add: import_def export_def)
  have traits: "getBigFive (personalitySystem (import (export s) s)) = getBigFive (personalitySystem s)"
    by (simp add: import_def export_def getConfig_def PersonalitySystem_new_def getBigFive_def)
  obtain P where P: "memories (consolidateMemories ?ms') = filter P (memories ?ms')"
    using consolidateMemories_memories by blast
  then have filt: "memories (memorySystem (import (export s) s)) = filter P (memories ?ms)"
    by (simp add: ms)
  then have len: "length (memories (memorySystem (import (export s) s))) \<le> length (memories ?ms)"
    by simp
  have fits: "memories (memorySystem (import (export s) s)) = memories ?ms"
    if "length (shortTermMemory ?ms)
              + length (filter (\<lambda>m. importance m < 60) (export_memories ?ms))
              \<le> maxShortTermSize ?ms"
      and "length (longTermMemory ?ms)
              + length (filter (\<lambda>m. importance m \<ge> 60) (export_memories ?ms))
              \<le> maxLongTermSize ?ms"
  proof -
    have "consolidateMemories ?ms' = ?ms'"
      using that by (intro consolidateMemories_fits) (simp_all add: not_le)
    then show ?thesis by (simp add: ms)
  qed
  from filt have ex: "\<exists>P. memories (memorySystem (import (export s) s))
               = filter P (memories (memorySystem s))"
    by blast
  from fits have fits': "length (shortTermMemory ?ms)
              + length (filter (\<lambda>m. importance m < 60) (export_memories ?ms))
              \<le> maxShortTermSize ?ms
            \<and> length (longTermMemory ?ms)
              + length (filter (\<lambda>m. importance m \<ge> 60) (export_memories ?ms))
              \<le> maxLongTermSize ?ms
         \<longrightarrow> memories (memorySystem (import (export s) s)) = memories ?ms"
    by simp
  from import_export_overflow [OF assms]
  have over: "\<not> (length (shortTermMemory ?ms)
              + length (filter (\<lambda>m. importance m < 60) (export_memories ?ms))
              \<le> maxShortTermSize ?ms
            \<and> length (longTermMemory ?ms)
              + length (filter (\<lambda>m. importance m \<ge> 60) (export_memories ?ms))
              \<le> maxLongTermSize ?ms)
         \<longrightarrow> length (memories (memorySystem (import (export s) s)))
              < length (memories ?ms)"
    by (rule impI)
  from traits import_export_contexts [OF kc] ex len fits' over show ?thesis
    by (intro conjI)
qed

text \<open>
  Claim C8. The round trip does not reproduce the memory count. A Soul built with
  \<open>memoryCapacity: 1\<close> and then given \<open>withIdentity({})\<close> is reachable and holds two
  identity memories of importance 100, m0 and m1, in its index and in its short-term list;
  its long-term list is empty. \<open>import(export())\<close> on that Soul pushes both records onto
  the long-term list, which then exceeds its capacity 1, and the consolidation deletes m1
  from the index: the count drops from 2 to 1. The memory system is left with m1 deleted
  from the index and still in the short-term list, and with m0 in both lists. The trait
  vector and the conversation contexts are reproduced.
\<close>

theorem import_export_deletes_memories:
  "reachable tinySoul
   \<and> map fst (memories (memorySystem tinySoul)) = [''m0'', ''m1'']
   \<and> map mem_id (shortTermMemory (memorySystem tinySoul)) = [''m1'', ''m0'']
   \<and> longTermMemory (memorySystem tinySoul) = []
   \<and> maxShortTermSize (memorySystem tinySoul) = 50
   \<and> maxLongTermSize (memorySystem tinySoul) = 1
   \<and> length (memories (memorySystem tinySoul)) = 2
   \<and> length (memories (memorySystem (import (export tinySoul) tinySoul))) = 1
   \<and> map fst (memories (memorySystem (import (export tinySoul) tinySoul))) = [''m0'']
   \<and> map mem_id (shortTermMemory (memorySystem (import (export tinySoul) tinySoul)))
       = [''m1'', ''m0'']
   \<and> map mem_id (longTermMemory (memorySystem (import (export tinySoul) tinySoul))) = [''m0'']
   \<and> getBigFive (personalitySystem (import (export tinySoul) tinySoul))
       = getBigFive (personalitySystem tinySoul)
   \<and> conversationContexts (import (export tinySoul) tinySoul) = conversationContexts tinySoul"
proof -
  define M0 where "M0 = makeMemory 0 ''m0'' (identityMemory defaultIdentity)"
  define M1 where "M1 = makeMemory 1 ''m1'' (identityMemory defaultIdentity)"
  have ids: "mem_id M0 = ''m0''" "mem_id M1 = ''m1''"
    and imps: "importance M0 = 100" "importance M1 = 100"
    by (simp_all add: M0_def M1_def makeMemory_def identityMemory_def)
  have r: "reachable tinySoul"
    unfolding tinySoul_def by (intro reach_withIdentity reach_new)
  have before: "memorySystem tinySoul =
     \<lparr>memories = [(''m0'', M0), (''m1'', M1)], shortTermMemory = [M1, M0],
      longTermMemory = [], maxShortTermSize = 50, maxLongTermSize = 1\<rparr>" (is "_ = ?ms")
    unfolding M0_def M1_def
    by (simp add: tinySoul_def withIdentity_def Soul_new_def tinyConfig_def Let_def store_def
        MemorySystem_new_def consolidateMemories_def consolidateShort_def consolidateLong_def
        spreadIdentity_def noIdentityChange_def makeMemory_def defaultIdentity_def)
  have "import_memories (export_memories ?ms) ?ms =
     \<lparr>memories = [(''m0'', M0)], shortTermMemory = [M1, M0],
      longTermMemory = [M0], maxShortTermSize = 50, maxLongTermSize = 1\<rparr>"
    by (simp add: import_memories_def export_memories_def map_values_def importOne_def Let_def
        consolidateMemories_def consolidateShort_def consolidateLong_def forget_def
        map_delete_def ids imps)
  then have after: "memorySystem (import (export tinySoul) tinySoul) =
     \<lparr>memories = [(''m0'', M0)], shortTermMemory = [M1, M0],
      longTermMemory = [M0], maxShortTermSize = 50, maxLongTermSize = 1\<rparr>"
    by (simp add: import_def export_def before)
  from import_export_same_soul [OF r]
  have same: "getBigFive (personalitySystem (import (export tinySoul) tinySoul))
       = getBigFive (personalitySystem tinySoul)"
    "conversationContexts (import (export tinySoul) tinySoul) = conversationContexts tinySoul"
    by blast+
  from r same show ?thesis
    by (simp add: before after ids)
qed

end
